theory Spec2Isabelle
  imports Complex_Main "HOL-Library.Sublist" "HOL-Library.Log_Nat"
begin

section \<open>Python strings and integers\<close>

text \<open>
  The source is Python.  Its \<open>str\<close> values are modelled as \<^typ>\<open>string\<close> restricted to
  ASCII text, and its \<open>int\<close> values, which are unbounded, as \<^typ>\<open>int\<close>.

  \<open>str.lower\<close> maps the letters \<open>A\<close> to \<open>Z\<close> (codes \<open>0x41\<close> to \<open>0x5A\<close>) to
  \<open>a\<close> to \<open>z\<close> by setting bit 5 of the code, and leaves every other character alone.
  The bits of \<^const>\<open>Char\<close> are listed from the least significant one.
\<close>

fun lower_char :: "char \<Rightarrow> char" where
  "lower_char (Char b0 b1 b2 b3 b4 b5 b6 b7) =
     (if \<not> b7 \<and> b6 \<and> \<not> b5 \<and> (b0 \<or> b1 \<or> b2 \<or> b3 \<or> b4) \<and>
         \<not> (b4 \<and> b3 \<and> (b2 \<or> (b1 \<and> b0)))
      then Char b0 b1 b2 b3 b4 True b6 b7
      else Char b0 b1 b2 b3 b4 b5 b6 b7)"

definition lower :: "string \<Rightarrow> string" where
  "lower s = map lower_char s"

text \<open>\<open>k in s\<close> on strings: \<open>k\<close> occurs in \<open>s\<close> as a contiguous block.\<close>

fun contains :: "string \<Rightarrow> string \<Rightarrow> bool" where
  "contains k [] = (k = [])"
| "contains k (c # s) = (prefix k (c # s) \<or> contains k s)"

text \<open>\<open>s.replace(old, new)\<close>: every occurrence, scanning from the left without overlap.\<close>

fun replace :: "string \<Rightarrow> string \<Rightarrow> string \<Rightarrow> string" where
  "replace old new [] = (if old = [] then new else [])"
| "replace old new (c # s) =
     (if old = [] then new @ c # replace old new s
      else if prefix old (c # s) then new @ replace old new (drop (length old - 1) s)
      else c # replace old new s)"

text \<open>\<open>sep.join(parts)\<close>.\<close>

fun join :: "string \<Rightarrow> string list \<Rightarrow> string" where
  "join sep [] = []"
| "join sep [x] = x"
| "join sep (x # y # ys) = x @ sep @ join sep (y # ys)"

text \<open>\<open>str(n)\<close> for an integer: decimal digits, with a leading minus sign when negative.\<close>

fun digits :: "nat \<Rightarrow> string" where
  "digits n =
     (if n < 10 then [''0123456789'' ! n]
      else digits (n div 10) @ [''0123456789'' ! (n mod 10)])"

declare digits.simps [simp del]

definition str_int :: "int \<Rightarrow> string" where
  "str_int i = (if i < 0 then CHR ''-'' # digits (nat (- i)) else digits (nat i))"

subsection \<open>Exceptions\<close>

text \<open>
  The operations take a \<open>str\<close>, an \<open>Optional[int]\<close> and an \<open>Optional[str]\<close>.  On such
  arguments the only operation of the service that can raise is the true division
  \<open>max_hours / len(base_tasks)\<close>.
\<close>

datatype error = ZeroDivisionError | OverflowError

text \<open>\<open>str(e)\<close> of the exceptions the interpreter raises from \<open>int / int\<close>.\<close>

fun error_message :: "error \<Rightarrow> string" where
  "error_message ZeroDivisionError = ''division by zero''"
| "error_message OverflowError = ''integer division result too large for a float''"

subsection \<open>True division of integers\<close>

text \<open>
  \<open>a / b\<close> on Python integers is the exact quotient rounded to the nearest binary64
  value, ties to even; it raises \<open>ZeroDivisionError\<close> when \<open>b\<close> is zero and
  \<open>OverflowError\<close> when the rounded quotient does not fit a binary64.
  \<open>PyFloat m s\<close> stands for the binary64 value \<open>m * 2 ^ s\<close>.
\<close>

datatype pyfloat = PyFloat int int

text \<open>Rounding \<open>x / y\<close> to the nearest integer, ties to even, for \<open>0 \<le> x\<close> and \<open>0 < y\<close>.\<close>

definition round_half_even_div :: "int \<Rightarrow> int \<Rightarrow> int" where
  "round_half_even_div x y =
     (let f = x div y; r = x mod y
      in if 2 * r < y then f
         else if y < 2 * r then f + 1
         else if even f then f else f + 1)"

text \<open>The exponent \<open>e\<close> with \<open>2 ^ e \<le> a / b < 2 ^ (e + 1)\<close>, for positive \<open>a\<close> and \<open>b\<close>.\<close>

definition ilog2 :: "int \<Rightarrow> int \<Rightarrow> int" where
  "ilog2 a b =
     (let e0 = bitlen a - bitlen b
      in if (if 0 \<le> e0 then b * 2 ^ nat e0 \<le> a else b \<le> a * 2 ^ nat (- e0))
         then e0 else e0 - 1)"

text \<open>Numerator and denominator of \<open>(a / b) / 2 ^ s\<close>.\<close>

definition scaled :: "int \<Rightarrow> int \<Rightarrow> int \<Rightarrow> int \<times> int" where
  "scaled a b s = (if 0 \<le> s then (a, b * 2 ^ nat s) else (a * 2 ^ nat (- s), b))"

definition truediv :: "int \<Rightarrow> int \<Rightarrow> error + pyfloat" where
  "truediv m n =
     (if n = 0 then Inl ZeroDivisionError
      else if m = 0 then Inr (PyFloat 0 0)
      else
        let a = \<bar>m\<bar>; b = \<bar>n\<bar>;
            sg = (if (m < 0) \<noteq> (n < 0) then - 1 else 1);
            e = ilog2 a b
        in if 1024 \<le> e then Inl OverflowError
           else
             let s = max (e - 52) (- 1074);
                 M = round_half_even_div (fst (scaled a b s)) (snd (scaled a b s))
             in if 0 \<le> s \<and> 2 ^ 1024 \<le> M * 2 ^ nat s then Inl OverflowError
                else Inr (PyFloat (sg * M) s))"

text \<open>The real number a float stands for.\<close>

fun float_value :: "pyfloat \<Rightarrow> real" where
  "float_value (PyFloat m s) = real_of_int m * 2 powi s"

text \<open>\<open>d > x\<close> for an integer \<open>d\<close> and a float \<open>x\<close>: Python compares the exact values.\<close>

fun int_gt_float :: "int \<Rightarrow> pyfloat \<Rightarrow> bool" where
  "int_gt_float d (PyFloat m s) =
     (if 0 \<le> s then m * 2 ^ nat s < d else m < d * 2 ^ nat (- s))"

section \<open>The data model\<close>

text \<open>An entry of the template table: \<open>{"title": ..., "duration": ..., "priority": ...}\<close>.\<close>

record archetype =
  base_title :: string
  duration :: int
  base_priority :: string

text \<open>
  A produced task.  The source stores \<open>list(set(dependencies))\<close>, a list whose order is
  that of the set's iteration; only membership is determined, so the field is a set.
\<close>

record task =
  title :: string
  description :: string
  priority :: string
  estimated_duration_hours :: int
  dependencies :: "nat set"
  due_date_offset_days :: int

record breakdown =
  reasoning :: string
  estimated_duration_days :: int
  tasks :: "task list"

section \<open>The tables of \<open>LocalAIService\<close>\<close>

definition product_launch_tasks :: "archetype list" where
  "product_launch_tasks =
    [\<lparr>base_title = ''Market Research and Analysis'', duration = 16, base_priority = ''high''\<rparr>,
     \<lparr>base_title = ''Define Product Requirements'', duration = 12, base_priority = ''high''\<rparr>,
     \<lparr>base_title = ''Create Project Timeline'', duration = 4, base_priority = ''high''\<rparr>,
     \<lparr>base_title = ''Set up Development Environment'', duration = 8, base_priority = ''high''\<rparr>,
     \<lparr>base_title = ''Design User Interface'', duration = 20, base_priority = ''medium''\<rparr>,
     \<lparr>base_title = ''Implement Core Features'', duration = 40, base_priority = ''high''\<rparr>,
     \<lparr>base_title = ''Write Unit Tests'', duration = 16, base_priority = ''medium''\<rparr>,
     \<lparr>base_title = ''Integration Testing'', duration = 12, base_priority = ''medium''\<rparr>,
     \<lparr>base_title = ''User Acceptance Testing'', duration = 8, base_priority = ''medium''\<rparr>,
     \<lparr>base_title = ''Deploy to Production'', duration = 8, base_priority = ''high''\<rparr>,
     \<lparr>base_title = ''Create Documentation'', duration = 12, base_priority = ''low''\<rparr>,
     \<lparr>base_title = ''Marketing and Promotion'', duration = 16, base_priority = ''medium''\<rparr>]"

definition learning_tasks :: "archetype list" where
  "learning_tasks =
    [\<lparr>base_title = ''Research Learning Resources'', duration = 4, base_priority = ''high''\<rparr>,
     \<lparr>base_title = ''Set Learning Goals'', duration = 2, base_priority = ''high''\<rparr>,
     \<lparr>base_title = ''Create Study Schedule'', duration = 2, base_priority = ''high''\<rparr>,
     \<lparr>base_title = ''Complete Basic Tutorials'', duration = 16, base_priority = ''high''\<rparr>,
     \<lparr>base_title = ''Practice with Small Projects'', duration = 24, base_priority = ''medium''\<rparr>,
     \<lparr>base_title = ''Join Learning Community'', duration = 4, base_priority = ''low''\<rparr>,
     \<lparr>base_title = ''Build Portfolio Project'', duration = 32, base_priority = ''medium''\<rparr>,
     \<lparr>base_title = ''Seek Feedback and Mentorship'', duration = 8, base_priority = ''medium''\<rparr>,
     \<lparr>base_title = ''Advanced Practice'', duration = 20, base_priority = ''medium''\<rparr>,
     \<lparr>base_title = ''Document Learning Journey'', duration = 4, base_priority = ''low''\<rparr>]"

definition event_planning_tasks :: "archetype list" where
  "event_planning_tasks =
    [\<lparr>base_title = ''Define Event Objectives'', duration = 4, base_priority = ''high''\<rparr>,
     \<lparr>base_title = ''Set Budget and Timeline'', duration = 4, base_priority = ''high''\<rparr>,
     \<lparr>base_title = ''Choose Venue and Date'', duration = 8, base_priority = ''high''\<rparr>,
     \<lparr>base_title = ''Create Guest List'', duration = 4, base_priority = ''medium''\<rparr>,
     \<lparr>base_title = ''Send Invitations'', duration = 4, base_priority = ''medium''\<rparr>,
     \<lparr>base_title = ''Plan Activities and Agenda'', duration = 12, base_priority = ''medium''\<rparr>,
     \<lparr>base_title = ''Arrange Catering'', duration = 6, base_priority = ''medium''\<rparr>,
     \<lparr>base_title = ''Set up Equipment and Decorations'', duration = 8, base_priority = ''low''\<rparr>,
     \<lparr>base_title = ''Coordinate with Vendors'', duration = 6, base_priority = ''medium''\<rparr>,
     \<lparr>base_title = ''Final Preparations'', duration = 4, base_priority = ''high''\<rparr>,
     \<lparr>base_title = ''Execute Event'', duration = 8, base_priority = ''high''\<rparr>,
     \<lparr>base_title = ''Follow-up and Feedback'', duration = 4, base_priority = ''low''\<rparr>]"

definition business_startup_tasks :: "archetype list" where
  "business_startup_tasks =
    [\<lparr>base_title = ''Market Research and Validation'', duration = 20, base_priority = ''high''\<rparr>,
     \<lparr>base_title = ''Create Business Plan'', duration = 16, base_priority = ''high''\<rparr>,
     \<lparr>base_title = ''Register Business Entity'', duration = 4, base_priority = ''high''\<rparr>,
     \<lparr>base_title = ''Set up Financial Systems'', duration = 8, base_priority = ''high''\<rparr>,
     \<lparr>base_title = ''Develop MVP (Minimum Viable Product)'', duration = 60, base_priority = ''high''\<rparr>,
     \<lparr>base_title = ''Build Brand Identity'', duration = 12, base_priority = ''medium''\<rparr>,
     \<lparr>base_title = ''Create Marketing Strategy'', duration = 16, base_priority = ''medium''\<rparr>,
     \<lparr>base_title = ''Launch Website'', duration = 20, base_priority = ''medium''\<rparr>,
     \<lparr>base_title = ''Find First Customers'', duration = 24, base_priority = ''high''\<rparr>,
     \<lparr>base_title = ''Gather Customer Feedback'', duration = 8, base_priority = ''medium''\<rparr>,
     \<lparr>base_title = ''Iterate and Improve'', duration = 20, base_priority = ''medium''\<rparr>,
     \<lparr>base_title = ''Scale Operations'', duration = 32, base_priority = ''low''\<rparr>]"

definition mobile_app_tasks :: "archetype list" where
  "mobile_app_tasks =
    [\<lparr>base_title = ''Define App Requirements'', duration = 8, base_priority = ''high''\<rparr>,
     \<lparr>base_title = ''Create Wireframes and Mockups'', duration = 16, base_priority = ''high''\<rparr>,
     \<lparr>base_title = ''Set up Development Environment'', duration = 6, base_priority = ''high''\<rparr>,
     \<lparr>base_title = ''Implement User Authentication'', duration = 12, base_priority = ''high''\<rparr>,
     \<lparr>base_title = ''Develop Core Features'', duration = 40, base_priority = ''high''\<rparr>,
     \<lparr>base_title = ''Integrate APIs and Backend'', duration = 20, base_priority = ''medium''\<rparr>,
     \<lparr>base_title = ''Implement UI/UX Design'', duration = 24, base_priority = ''medium''\<rparr>,
     \<lparr>base_title = ''Testing and Bug Fixes'', duration = 16, base_priority = ''medium''\<rparr>,
     \<lparr>base_title = ''Performance Optimization'', duration = 12, base_priority = ''medium''\<rparr>,
     \<lparr>base_title = ''Prepare for App Store'', duration = 8, base_priority = ''high''\<rparr>,
     \<lparr>base_title = ''Submit for Review'', duration = 2, base_priority = ''high''\<rparr>,
     \<lparr>base_title = ''Launch and Marketing'', duration = 16, base_priority = ''medium''\<rparr>]"

text \<open>\<open>_load_task_templates\<close>: the dictionary from goal type to its archetypes.\<close>

definition task_templates :: "(string \<times> archetype list) list" where
  "task_templates =
    [(''product_launch'', product_launch_tasks),
     (''learning'', learning_tasks),
     (''event_planning'', event_planning_tasks),
     (''business_startup'', business_startup_tasks),
     (''mobile_app'', mobile_app_tasks)]"

text \<open>\<open>_load_priority_keywords\<close>: a dictionary, iterated in insertion order.\<close>

definition priority_keywords :: "(string \<times> string list) list" where
  "priority_keywords =
    [(''high'', [''urgent'', ''critical'', ''essential'', ''immediate'', ''launch'',
                 ''deadline'', ''core'', ''main'', ''primary'']),
     (''medium'', [''important'', ''secondary'', ''support'', ''enhancement'', ''feature'',
                   ''improvement'']),
     (''low'', [''optional'', ''nice-to-have'', ''future'', ''documentation'', ''cleanup'',
                ''optimization''])]"

text \<open>\<open>any(word in text for word in words)\<close>.\<close>

definition any_in :: "string list \<Rightarrow> string \<Rightarrow> bool" where
  "any_in words text = list_ex (\<lambda>word. contains word text) words"

text \<open>\<open>context or ""\<close>.\<close>

fun or_empty :: "string option \<Rightarrow> string" where
  "or_empty None = []"
| "or_empty (Some c) = c"

text \<open>\<open>if timeline_weeks:\<close> tests the value for truth: \<open>None\<close> and \<open>0\<close> are false.\<close>

fun truthy :: "int option \<Rightarrow> bool" where
  "truthy None = False"
| "truthy (Some w) = (w \<noteq> 0)"

section \<open>Goal classification\<close>

definition analyze_goal_type :: "string \<Rightarrow> string option \<Rightarrow> string" where
  "analyze_goal_type goal context =
     (let text = lower (goal @ '' '' @ or_empty context)
      in if any_in [''app'', ''mobile'', ''ios'', ''android'', ''react native''] text
           then ''mobile_app''
         else if any_in [''learn'', ''study'', ''course'', ''tutorial'', ''skill''] text
           then ''learning''
         else if any_in [''event'', ''party'', ''conference'', ''meeting'', ''gathering''] text
           then ''event_planning''
         else if any_in [''business'', ''startup'', ''company'', ''entrepreneur''] text
           then ''business_startup''
         else if any_in [''launch'', ''product'', ''release'', ''deploy''] text
           then ''product_launch''
         else ''product_launch'')"

section \<open>Task customization\<close>

definition customize_task_title :: "string \<Rightarrow> string \<Rightarrow> string option \<Rightarrow> string" where
  "customize_task_title base goal context =
     (let goal_lower = lower goal
      in if contains ''app'' goal_lower \<or> contains ''mobile'' goal_lower
           then replace ''Product'' ''App'' base
         else if contains ''website'' goal_lower \<or> contains ''web'' goal_lower
           then replace ''Product'' ''Website'' base
         else if contains ''business'' goal_lower
           then replace ''Product'' ''Business'' base
         else base)"

definition generate_task_description :: "string \<Rightarrow> string \<Rightarrow> string" where
  "generate_task_description ttl goal =
     (let g = lower goal;
          descriptions =
            [(''Market Research'', ''Research the target market for '' @ g @
                '' to understand user needs and competition.''),
             (''Define Requirements'', ''Define clear requirements and specifications for '' @ g @
                ''.''),
             (''Set up Environment'',
                ''Set up the development environment and necessary tools for '' @ g @ ''.''),
             (''Design'', ''Create designs and mockups for '' @ g @
                '' focusing on user experience.''),
             (''Implement'', ''Implement the core functionality for '' @ g @ ''.''),
             (''Testing'', ''Test '' @ g @ '' thoroughly to ensure quality and functionality.''),
             (''Deploy'', ''Deploy '' @ g @ '' to production environment.''),
             (''Documentation'', ''Create comprehensive documentation for '' @ g @ ''.''),
             (''Marketing'', ''Develop marketing strategy and materials for '' @ g @ ''.'')]
      in case find (\<lambda>(key, desc). contains (lower key) (lower ttl)) descriptions of
           Some (key, desc) \<Rightarrow> desc
         | None \<Rightarrow> ''Complete the '' @ lower ttl @ '' phase for '' @ g @ ''.'')"

definition determine_priority :: "string \<Rightarrow> string \<Rightarrow> string option \<Rightarrow> string" where
  "determine_priority ttl goal context =
     (let text = lower (ttl @ '' '' @ goal @ '' '' @ or_empty context)
      in case find (\<lambda>(prio, keywords). any_in keywords text) priority_keywords of
           Some (prio, keywords) \<Rightarrow> prio
         | None \<Rightarrow> ''medium'')"

text \<open>
  The duration step of the loop body of \<open>_customize_tasks\<close>: the comparison is against
  the float \<open>max_hours / len(base_tasks)\<close>, the clamp uses floor division.
\<close>

definition adjust_duration :: "int \<Rightarrow> int option \<Rightarrow> nat \<Rightarrow> error + int" where
  "adjust_duration d timeline_weeks n =
     (if truthy timeline_weeks then
        (let max_hours = the timeline_weeks * 40
         in case truediv max_hours (int n) of
              Inl e \<Rightarrow> Inl e
            | Inr q \<Rightarrow>
                if int_gt_float d q then Inr (max 4 (max_hours div int n)) else Inr d)
      else Inr d)"

text \<open>One iteration of the loop of \<open>_customize_tasks\<close>, for the archetype at index \<open>i\<close>.\<close>

definition customize_task ::
  "archetype list \<Rightarrow> string \<Rightarrow> string option \<Rightarrow> int option \<Rightarrow> nat \<Rightarrow> archetype \<Rightarrow> error + task"
where
  "customize_task base_tasks goal context timeline_weeks i t =
     (let ttl = customize_task_title (base_title t) goal context
      in case adjust_duration (duration t) timeline_weeks (length base_tasks) of
           Inl e \<Rightarrow> Inl e
         | Inr d \<Rightarrow>
             Inr \<lparr>title = ttl,
                  description = generate_task_description ttl goal,
                  priority = determine_priority (base_title t) goal context,
                  estimated_duration_hours = d,
                  dependencies = {},
                  due_date_offset_days = int i * 2\<rparr>)"

fun customize_loop ::
  "archetype list \<Rightarrow> string \<Rightarrow> string option \<Rightarrow> int option \<Rightarrow> nat \<Rightarrow> archetype list
     \<Rightarrow> error + task list"
where
  "customize_loop base_tasks goal context timeline_weeks i [] = Inr []"
| "customize_loop base_tasks goal context timeline_weeks i (t # rest) =
     (case customize_task base_tasks goal context timeline_weeks i t of
        Inl e \<Rightarrow> Inl e
      | Inr ct \<Rightarrow>
          (case customize_loop base_tasks goal context timeline_weeks (Suc i) rest of
             Inl e \<Rightarrow> Inl e
           | Inr cts \<Rightarrow> Inr (ct # cts)))"

definition customize_tasks ::
  "archetype list \<Rightarrow> string \<Rightarrow> string option \<Rightarrow> int option \<Rightarrow> error + task list"
where
  "customize_tasks base_tasks goal context timeline_weeks =
     customize_loop base_tasks goal context timeline_weeks 0 base_tasks"

section \<open>Dependency inference\<close>

text \<open>
  The body of the loop of \<open>_add_dependencies\<close> at index \<open>i\<close>: the set it stores in
  \<open>task["dependencies"]\<close>.
\<close>

definition dependencies_at :: "task list \<Rightarrow> nat \<Rightarrow> nat set" where
  "dependencies_at ts i =
     (let task_title = lower (title (ts ! i))
      in set ((if 0 < i then [i - 1] else []) @
           (if contains ''testing'' task_title
              then filter (\<lambda>j. contains ''implement'' (lower (title (ts ! j))) \<or>
                                contains ''develop'' (lower (title (ts ! j)))) [0..<i]
            else if contains ''deploy'' task_title
              then filter (\<lambda>j. contains ''test'' (lower (title (ts ! j)))) [0..<i]
            else [])))"

text \<open>The loop mutates the list in place, in index order.\<close>

definition add_dependencies :: "task list \<Rightarrow> task list" where
  "add_dependencies ts =
     fold (\<lambda>i ts. ts[i := (ts ! i)\<lparr>dependencies := dependencies_at ts i\<rparr>]) [0..<length ts] ts"

section \<open>Reasoning, fallback and the top-level operation\<close>

definition generate_reasoning :: "string \<Rightarrow> string \<Rightarrow> nat \<Rightarrow> int option \<Rightarrow> string" where
  "generate_reasoning goal goal_type task_count timeline_weeks =
     join '' ''
       ([''Analyzed the goal '' @ [CHR 0x27] @ goal @ [CHR 0x27] @ '' and identified it as a '' @
           replace ''_'' '' '' goal_type @ '' project.'',
         ''Generated '' @ str_int (int task_count) @
           '' actionable tasks based on best practices for this type of project.''] @
        (if truthy timeline_weeks
         then [''Adjusted task durations to fit within the '' @ str_int (the timeline_weeks) @
                 ''-week timeline.'']
         else []) @
        [''Tasks are ordered logically with dependencies to ensure smooth progression.'',
         ''Priority levels are assigned based on importance and dependencies.'',
         ''Time estimates are realistic and account for potential challenges.''])"

definition get_fallback_tasks :: "string \<Rightarrow> task list" where
  "get_fallback_tasks goal =
    [\<lparr>title = ''Plan and Research '' @ goal,
      description = ''Research and plan the approach for '' @ goal,
      priority = ''high'', estimated_duration_hours = 8,
      dependencies = {}, due_date_offset_days = 0\<rparr>,
     \<lparr>title = ''Implement Core Features for '' @ goal,
      description = ''Implement the main functionality for '' @ goal,
      priority = ''high'', estimated_duration_hours = 16,
      dependencies = {0}, due_date_offset_days = 2\<rparr>,
     \<lparr>title = ''Test and Validate '' @ goal,
      description = ''Test the implementation of '' @ goal,
      priority = ''medium'', estimated_duration_hours = 8,
      dependencies = {1}, due_date_offset_days = 4\<rparr>,
     \<lparr>title = ''Deploy and Launch '' @ goal,
      description = ''Deploy and launch '' @ goal,
      priority = ''high'', estimated_duration_hours = 4,
      dependencies = {2}, due_date_offset_days = 6\<rparr>]"

text \<open>\<open>self.task_templates.get(goal_type, self.task_templates["product_launch"])\<close>.\<close>

definition templates_get :: "string \<Rightarrow> archetype list" where
  "templates_get goal_type =
     (case map_of task_templates goal_type of
        Some ts \<Rightarrow> ts
      | None \<Rightarrow> product_launch_tasks)"

text \<open>\<open>max(1, total_hours // 8)\<close> over the hours of the tasks.\<close>

definition estimated_days :: "task list \<Rightarrow> int" where
  "estimated_days ts = max 1 (sum_list (map estimated_duration_hours ts) div 8)"

text \<open>
  The body of the \<open>try\<close> block of \<open>generate_task_breakdown\<close>.  The list returned by
  \<open>_add_dependencies\<close> is the customized list itself, mutated, so the task count and the
  hours are read from it.
\<close>

definition breakdown_body :: "string \<Rightarrow> int option \<Rightarrow> string option \<Rightarrow> error + breakdown" where
  "breakdown_body goal timeline_weeks additional_context =
     (let goal_type = analyze_goal_type goal additional_context;
          base_tasks = templates_get goal_type
      in case customize_tasks base_tasks goal additional_context timeline_weeks of
           Inl e \<Rightarrow> Inl e
         | Inr customized_tasks \<Rightarrow>
             (let tasks_with_dependencies = add_dependencies customized_tasks;
                  reasoning = generate_reasoning goal goal_type
                                (length tasks_with_dependencies) timeline_weeks
              in Inr \<lparr>reasoning = reasoning,
                      estimated_duration_days = estimated_days tasks_with_dependencies,
                      tasks = tasks_with_dependencies\<rparr>))"

text \<open>The \<open>except Exception as e\<close> branch.\<close>

definition fallback_breakdown :: "string \<Rightarrow> error \<Rightarrow> breakdown" where
  "fallback_breakdown goal e =
     \<lparr>reasoning = ''Generated using local AI logic. Error: '' @ error_message e,
      estimated_duration_days = 14,
      tasks = get_fallback_tasks goal\<rparr>"

definition generate_task_breakdown :: "string \<Rightarrow> int option \<Rightarrow> string option \<Rightarrow> breakdown" where
  "generate_task_breakdown goal timeline_weeks additional_context =
     (case breakdown_body goal timeline_weeks additional_context of
        Inr result \<Rightarrow> result
      | Inl e \<Rightarrow> fallback_breakdown goal e)"

section \<open>The suggestion engine\<close>

definition generic_suggestions :: "string list" where
  "generic_suggestions =
    [''Break down into smaller, more specific subtasks'',
     ''Add measurable success criteria'',
     ''Consider potential blockers and mitigation strategies'',
     ''Set up regular check-ins or milestones'',
     ''Document lessons learned for future reference'']"

definition research_suggestions :: "string list" where
  "research_suggestions =
    [''Create a research plan with specific questions'',
     ''Identify key sources and experts to consult'']"

definition implement_suggestions :: "string list" where
  "implement_suggestions =
    [''Write unit tests alongside implementation'',
     ''Consider code review and pair programming'']"

definition test_suggestions :: "string list" where
  "test_suggestions =
    [''Create test cases before testing begins'',
     ''Document bugs and their resolutions'']"

definition generate_task_suggestions :: "string \<Rightarrow> string \<Rightarrow> string list" where
  "generate_task_suggestions current_task context =
     (let suggestions = generic_suggestions;
          task_lower = lower current_task;
          suggestions =
            (if contains ''research'' task_lower then suggestions @ research_suggestions
             else if contains ''implement'' task_lower \<or> contains ''develop'' task_lower
               then suggestions @ implement_suggestions
             else if contains ''test'' task_lower then suggestions @ test_suggestions
             else suggestions)
      in take 5 suggestions)"

section \<open>The operations as the specification words them\<close>

text \<open>
  An ordered list of keyword sets, each with its outcome: the outcome of the first set
  with a keyword that occurs in the text, and the default when no set has one.
\<close>

definition first_hit :: "(string list \<times> string) list \<Rightarrow> string \<Rightarrow> string \<Rightarrow> string" where
  "first_hit rules otherwise text =
     (case find (\<lambda>(keywords, outcome). any_in keywords text) rules of
        Some (keywords, outcome) \<Rightarrow> outcome
      | None \<Rightarrow> otherwise)"

definition goal_type_rules :: "(string list \<times> string) list" where
  "goal_type_rules =
    [([''app'', ''mobile'', ''ios'', ''android'', ''react native''], ''mobile_app''),
     ([''learn'', ''study'', ''course'', ''tutorial'', ''skill''], ''learning''),
     ([''event'', ''party'', ''conference'', ''meeting'', ''gathering''], ''event_planning''),
     ([''business'', ''startup'', ''company'', ''entrepreneur''], ''business_startup''),
     ([''launch'', ''product'', ''release'', ''deploy''], ''product_launch'')]"

text \<open>Classification over the plain concatenation of goal and context.\<close>

definition classify_concat :: "string \<Rightarrow> string option \<Rightarrow> string" where
  "classify_concat goal context =
     first_hit goal_type_rules ''product_launch'' (lower (goal @ or_empty context))"

definition priority_rules :: "(string list \<times> string) list" where
  "priority_rules =
    [([''urgent'', ''critical'', ''essential'', ''immediate'', ''launch'', ''deadline'', ''core'',
       ''main'', ''primary''], ''high''),
     ([''important'', ''secondary'', ''support'', ''enhancement'', ''feature'', ''improvement''],
      ''medium''),
     ([''optional'', ''nice-to-have'', ''future'', ''documentation'', ''cleanup'',
       ''optimization''], ''low'')]"

text \<open>Priority over the plain concatenation of title, goal and context.\<close>

definition priority_concat :: "string \<Rightarrow> string \<Rightarrow> string option \<Rightarrow> string" where
  "priority_concat ttl goal context =
     first_hit priority_rules ''medium'' (lower (ttl @ goal @ or_empty context))"

text \<open>
  The duration rule: the baseline when it does not exceed the exact quotient
  \<open>(timelineWeeks * 40) / archetypeCount\<close>, and otherwise the floor of that quotient, at
  least 4.
\<close>

definition scaled_duration :: "int \<Rightarrow> int \<Rightarrow> nat \<Rightarrow> int" where
  "scaled_duration baseline timeline_weeks n =
     (if real_of_int baseline \<le> real_of_int (timeline_weeks * 40) / real n then baseline
      else max 4 (timeline_weeks * 40 div int n))"

text \<open>A timeline so long that \<open>max_hours / len(base_tasks)\<close> does not fit a float.\<close>

definition long_timeline :: int where
  "long_timeline = 2 ^ 1100"

text \<open>A draft with a given title, for inputs of the dependency inference.\<close>

definition draft :: "string \<Rightarrow> task" where
  "draft ttl =
     \<lparr>title = ttl, description = [], priority = ''medium'', estimated_duration_hours = 8,
      dependencies = {}, due_date_offset_days = 0\<rparr>"

section \<open>The string and float operations on examples\<close>

lemma lower_alphabet:
  "lower ''ABCDEFGHIJKLMNOPQRSTUVWXYZ'' = ''abcdefghijklmnopqrstuvwxyz''"
  "lower ''az09 @[`{_-/().,'' = ''az09 @[`{_-/().,''"
  by (simp_all add: lower_def)

lemma contains_iff_sublist: "contains k s \<longleftrightarrow> sublist k s"
  by (induction s) (simp_all add: sublist_Cons_right)

lemma replace_examples:
  "replace ''Product'' ''App'' ''Define Product Requirements'' = ''Define App Requirements''"
  "replace ''_'' '' '' ''business_startup'' = ''business startup''"
  "str_int 12 = ''12''"
  by code_simp+

text \<open>
  \<open>1 / 3\<close> is \<open>6004799503160661 / 2 ^ 54\<close>; \<open>2 ^ 53 + 1\<close> and \<open>2 ^ 53 + 3\<close> are ties and
  round to the even neighbours; the largest quotient that does not overflow is just
  below \<open>2 ^ 1024 - 2 ^ 970\<close>.
\<close>

lemma truediv_examples:
  "truediv 1 3 = Inr (PyFloat 6004799503160661 (- 54))"
  "truediv (- 1) 3 = Inr (PyFloat (- 6004799503160661) (- 54))"
  "truediv 9007199254740993 1 = Inr (PyFloat 4503599627370496 1)"
  "truediv 9007199254740995 1 = Inr (PyFloat 4503599627370498 1)"
  "truediv (2 ^ 1024 - 2 ^ 970 - 1) 1 = Inr (PyFloat 9007199254740991 971)"
  "truediv (2 ^ 1024 - 2 ^ 970) 1 = Inl OverflowError"
  "truediv 5 0 = Inl ZeroDivisionError"
  by code_simp+

section \<open>Properties of the suggestion engine\<close>

lemma take5_generic: "take 5 (generic_suggestions @ xs) = generic_suggestions"
  by (simp add: generic_suggestions_def)

lemma take5_generic0: "take 5 generic_suggestions = generic_suggestions"
  using take5_generic [of "[]"] by simp

text \<open>
  Claim C8.  For every task title and context the suggestion operation returns exactly
  five entries, and they are the five fixed generic suggestions: none of the
  domain-specific suggestions appended for titles containing "research",
  "implement"/"develop" or "test" is an element of the returned sequence.
\<close>

theorem suggestions_always_generic:
  "length (generate_task_suggestions t c) = 5 \<and>
   generate_task_suggestions t c = generic_suggestions \<and>
   set (generate_task_suggestions t c) \<inter>
     set (research_suggestions @ implement_suggestions @ test_suggestions) = {}"
proof -
  have eq: "generate_task_suggestions t c = generic_suggestions"
    unfolding generate_task_suggestions_def Let_def
    by (simp only: if_distrib [of "take 5"] take5_generic take5_generic0 if_cancel)
  have len: "length generic_suggestions = 5"
    by (simp add: generic_suggestions_def)
  have disj: "set generic_suggestions \<inter>
      set (research_suggestions @ implement_suggestions @ test_suggestions) = {}"
    by (simp add: generic_suggestions_def research_suggestions_def
        implement_suggestions_def test_suggestions_def)
  from eq len disj show ?thesis by simp
qed

theorem suggestions_always_generic_witness:
  "generate_task_suggestions ''Research the market'' ''solo'' =
     [''Break down into smaller, more specific subtasks'',
      ''Add measurable success criteria'',
      ''Consider potential blockers and mitigation strategies'',
      ''Set up regular check-ins or milestones'',
      ''Document lessons learned for future reference'']"
  using suggestions_always_generic [of "''Research the market''" "''solo''"]
  by (simp add: generic_suggestions_def)

text \<open>
  Claim C10.  The context argument of the suggestion operation is never read: for every
  title and any two contexts the results are equal.
\<close>

theorem suggestions_ignore_context:
  "generate_task_suggestions t c1 = generate_task_suggestions t c2"
  by (simp add: generate_task_suggestions_def)

theorem suggestions_ignore_context_witness:
  "generate_task_suggestions ''Test the build'' ''first context'' =
   generate_task_suggestions ''Test the build'' ''another one''"
  using suggestions_ignore_context [of "''Test the build''" "''first context''" "''another one''"]
  by simp

section \<open>Evaluated plans\<close>

text \<open>
  The plan for the goal "Ship it" with no timeline and no context, row by row: title,
  hours and dependency set.
\<close>

lemma ship_it_rows:
  "map (\<lambda>t. (title t, estimated_duration_hours t, dependencies t))
     (tasks (generate_task_breakdown ''Ship it'' None None)) =
   [(''Market Research and Analysis'', 16, {}),
    (''Define Product Requirements'', 12, {0}),
    (''Create Project Timeline'', 4, {1}),
    (''Set up Development Environment'', 8, {2}),
    (''Design User Interface'', 20, {3}),
    (''Implement Core Features'', 40, {4}),
    (''Write Unit Tests'', 16, {5}),
    (''Integration Testing'', 12, {3, 5, 6}),
    (''User Acceptance Testing'', 8, {3, 5, 7}),
    (''Deploy to Production'', 8, {6, 7, 8}),
    (''Create Documentation'', 12, {9}),
    (''Marketing and Promotion'', 16, {10})]"
  by code_simp

lemma overflow_body: "breakdown_body ''x'' (Some long_timeline) None = Inl OverflowError"
  by code_simp

section \<open>Dependency inference is backward-looking\<close>

lemma dependencies_at_less: "j \<in> dependencies_at ts i \<Longrightarrow> j < i"
  by (auto simp: dependencies_at_def Let_def split: if_splits)

lemma dependencies_at_cong:
  assumes "length ts' = length ts" and "map title ts' = map title ts" and "i < length ts"
  shows "dependencies_at ts' i = dependencies_at ts i"
proof -
  have t: "title (ts' ! j) = title (ts ! j)" if "j \<le> i" for j
  proof -
    from that assms have "j < length ts" "j < length ts'" by simp_all
    then have "title (ts' ! j) = map title ts' ! j" "title (ts ! j) = map title ts ! j"
      by simp_all
    with assms(2) show ?thesis by simp
  qed
  have f: "filter (\<lambda>j. P (title (ts' ! j))) [0..<i] = filter (\<lambda>j. P (title (ts ! j))) [0..<i]"
    for P :: "string \<Rightarrow> bool"
    by (rule filter_cong) (simp_all add: t)
  show ?thesis
    unfolding dependencies_at_def Let_def
    using t [of i] f [of "\<lambda>s. contains ''implement'' (lower s) \<or> contains ''develop'' (lower s)"]
      f [of "\<lambda>s. contains ''test'' (lower s)"]
    by simp
qed

text \<open>
  After the first \<open>n\<close> iterations the titles are untouched and exactly the first \<open>n\<close>
  tasks carry their dependency sets, each computed from the titles of the input.
\<close>

lemma add_dependencies_prefix:
  "n \<le> length ts \<Longrightarrow>
   length (fold (\<lambda>i ts. ts[i := (ts ! i)\<lparr>dependencies := dependencies_at ts i\<rparr>]) [0..<n] ts) =
     length ts \<and>
   map title (fold (\<lambda>i ts. ts[i := (ts ! i)\<lparr>dependencies := dependencies_at ts i\<rparr>]) [0..<n] ts) =
     map title ts \<and>
   (\<forall>k<length ts.
      fold (\<lambda>i ts. ts[i := (ts ! i)\<lparr>dependencies := dependencies_at ts i\<rparr>]) [0..<n] ts ! k =
        (if k < n then (ts ! k)\<lparr>dependencies := dependencies_at ts k\<rparr> else ts ! k))"
proof (induction n)
  case 0
  then show ?case by simp
next
  case (Suc n)
  let ?f = "\<lambda>i ts. ts[i := (ts ! i)\<lparr>dependencies := dependencies_at ts i\<rparr>]"
  let ?m = "fold ?f [0..<n] ts"
  from Suc have n: "n < length ts" by simp
  with Suc have len: "length ?m = length ts" and ttl: "map title ?m = map title ts"
    and nth: "\<And>k. k < length ts \<Longrightarrow>
      ?m ! k = (if k < n then (ts ! k)\<lparr>dependencies := dependencies_at ts k\<rparr> else ts ! k)"
    by simp_all
  have step: "fold ?f [0..<Suc n] ts = ?m[n := (?m ! n)\<lparr>dependencies := dependencies_at ?m n\<rparr>]"
    by simp
  have dep: "dependencies_at ?m n = dependencies_at ts n"
    using len ttl n by (rule dependencies_at_cong)
  have mn: "?m ! n = ts ! n" using nth [OF n] by simp
  have "map title (?m[n := (?m ! n)\<lparr>dependencies := dependencies_at ?m n\<rparr>]) = map title ?m"
    using n len by (simp add: map_update list_update_same_conv)
  moreover have "\<forall>k<length ts. (?m[n := (?m ! n)\<lparr>dependencies := dependencies_at ?m n\<rparr>]) ! k =
        (if k < Suc n then (ts ! k)\<lparr>dependencies := dependencies_at ts k\<rparr> else ts ! k)"
    using n len nth dep mn by (auto simp: nth_list_update less_Suc_eq)
  ultimately show ?case
    unfolding step using len ttl by simp
qed

lemma length_add_dependencies: "length (add_dependencies ts) = length ts"
  using add_dependencies_prefix [of "length ts" ts] by (simp add: add_dependencies_def)

lemma nth_add_dependencies:
  "i < length ts \<Longrightarrow> add_dependencies ts ! i = (ts ! i)\<lparr>dependencies := dependencies_at ts i\<rparr>"
  using add_dependencies_prefix [of "length ts" ts] by (simp add: add_dependencies_def)

lemma hours_add_dependencies:
  "map estimated_duration_hours (add_dependencies ts) = map estimated_duration_hours ts"
  by (rule nth_equalityI) (simp_all add: length_add_dependencies nth_add_dependencies)

lemma fallback_acyclic:
  "i < length (get_fallback_tasks goal) \<Longrightarrow>
   j \<in> dependencies (get_fallback_tasks goal ! i) \<Longrightarrow> j < i"
  by (auto simp: get_fallback_tasks_def less_Suc_eq numeral_eq_Suc nth_Cons')

lemma tasks_of_body:
  "breakdown_body goal timeline_weeks context = Inr r \<Longrightarrow>
   \<exists>cs. customize_tasks (templates_get (analyze_goal_type goal context)) goal context
           timeline_weeks = Inr cs \<and>
        tasks r = add_dependencies cs \<and>
        estimated_duration_days r = estimated_days (add_dependencies cs) \<and>
        reasoning r = generate_reasoning goal (analyze_goal_type goal context)
                        (length (add_dependencies cs)) timeline_weeks"
  by (auto simp: breakdown_body_def Let_def split: sum.splits)

text \<open>
  Claim C2.  Acyclicity: in every plan produced by \<open>generate_task_breakdown\<close>, on the
  main path and on the fallback path alike, every index in the dependency set of the
  task at position \<open>i\<close> is strictly less than \<open>i\<close>.
\<close>

theorem dependencies_point_backward:
  assumes "i < length (tasks (generate_task_breakdown goal timeline_weeks context))"
    and "j \<in> dependencies (tasks (generate_task_breakdown goal timeline_weeks context) ! i)"
  shows "j < i"
proof (cases "breakdown_body goal timeline_weeks context")
  case (Inl e)
  then have "tasks (generate_task_breakdown goal timeline_weeks context) = get_fallback_tasks goal"
    by (simp add: generate_task_breakdown_def fallback_breakdown_def)
  with assms show ?thesis using fallback_acyclic by simp
next
  case (Inr r)
  then obtain cs where r: "tasks r = add_dependencies cs"
    using tasks_of_body by blast
  from Inr have "tasks (generate_task_breakdown goal timeline_weeks context) = add_dependencies cs"
    by (simp add: generate_task_breakdown_def r)
  with assms have "i < length cs" "j \<in> dependencies (add_dependencies cs ! i)"
    by (simp_all add: length_add_dependencies)
  then have "j \<in> dependencies_at cs i" by (simp add: nth_add_dependencies)
  then show ?thesis by (rule dependencies_at_less)
qed

theorem dependencies_point_backward_witness:
  "9 < length (tasks (generate_task_breakdown ''Ship it'' None None)) \<and>
   6 \<in> dependencies (tasks (generate_task_breakdown ''Ship it'' None None) ! 9) \<and>
   (6 :: nat) < 9 \<and>
   1 < length (tasks (generate_task_breakdown ''x'' (Some long_timeline) None)) \<and>
   0 \<in> dependencies (tasks (generate_task_breakdown ''x'' (Some long_timeline) None) ! 1) \<and>
   (0 :: nat) < 1"
proof -
  let ?p = "generate_task_breakdown ''Ship it'' None None"
  let ?row = "\<lambda>t. (title t, estimated_duration_hours t, dependencies t)"
  have len: "9 < length (tasks ?p)"
    using arg_cong [OF ship_it_rows, of length] by simp
  have "?row (tasks ?p ! 9) = (''Deploy to Production'', 8, {6, 7, 8})"
    using nth_map [OF len, of ?row] by (simp add: ship_it_rows)
  then have dep: "6 \<in> dependencies (tasks ?p ! 9)" by simp
  let ?q = "generate_task_breakdown ''x'' (Some long_timeline) None"
  have q: "tasks ?q = get_fallback_tasks ''x''"
    by (simp add: generate_task_breakdown_def overflow_body fallback_breakdown_def)
  have len': "1 < length (tasks ?q)" by (simp add: q get_fallback_tasks_def)
  have dep': "0 \<in> dependencies (tasks ?q ! 1)" by (simp add: q get_fallback_tasks_def)
  from dependencies_point_backward [OF len dep] dependencies_point_backward [OF len' dep']
    len dep len' dep'
  show ?thesis by blast
qed

section \<open>Classification\<close>

text \<open>
  Claim C3 as stated fails: the source puts a space between the goal and the context
  before searching, so a keyword split across the two is not found.
\<close>

theorem classify_concat_differs:
  "analyze_goal_type ''ap'' (Some ''p'') = ''product_launch'' \<and>
   classify_concat ''ap'' (Some ''p'') = ''mobile_app''"
  by code_simp

text \<open>
  Claim C3, amended.  Goal classification lower-cases the goal text, a single space and
  the context (empty if absent), in this order, and tests the five keyword sets in the
  fixed order mobile_app, learning, event_planning, business_startup, product_launch,
  returning the first set with a substring hit and product_launch when none hit; in
  particular "Launch a mobile app" with an empty context is classified mobile_app.
\<close>

theorem classification_first_hit:
  "analyze_goal_type goal context =
     first_hit goal_type_rules ''product_launch'' (lower (goal @ '' '' @ or_empty context)) \<and>
   analyze_goal_type ''Launch a mobile app'' (Some '''') = ''mobile_app''"
proof
  show "analyze_goal_type goal context =
     first_hit goal_type_rules ''product_launch'' (lower (goal @ '' '' @ or_empty context))"
    by (simp add: analyze_goal_type_def first_hit_def goal_type_rules_def Let_def)
  show "analyze_goal_type ''Launch a mobile app'' (Some '''') = ''mobile_app''"
    by code_simp
qed

theorem classification_first_hit_witness:
  "analyze_goal_type ''Plan a company party'' None = ''event_planning''"
proof -
  have "first_hit goal_type_rules ''product_launch''
          (lower (''Plan a company party'' @ '' '' @ or_empty None)) = ''event_planning''"
    by code_simp
  with classification_first_hit [of "''Plan a company party''" None] show ?thesis
    by simp
qed

section \<open>Priority\<close>

lemma customize_task_base_priority:
  "length bs' = length bs \<Longrightarrow>
   customize_task bs' goal context timeline_weeks i (a\<lparr>base_priority := p\<rparr>) =
   customize_task bs goal context timeline_weeks i a"
  by (simp add: customize_task_def Let_def split: sum.splits)

lemma customize_loop_base_priority:
  "length bs' = length bs \<Longrightarrow>
   customize_loop bs' goal context timeline_weeks i (map (\<lambda>a. a\<lparr>base_priority := f a\<rparr>) ts) =
   customize_loop bs goal context timeline_weeks i ts"
proof (induction ts arbitrary: i)
  case Nil
  show ?case by simp
next
  case (Cons a ts)
  from Cons.prems have "customize_task bs' goal context timeline_weeks i (a\<lparr>base_priority := f a\<rparr>) =
      customize_task bs goal context timeline_weeks i a"
    by (rule customize_task_base_priority)
  with Cons.IH [OF Cons.prems] show ?case by (simp split: sum.splits)
qed

text \<open>
  Claim C4 as stated fails: the source joins title, goal and context with single spaces
  before searching, so a keyword split across two of them is not found.
\<close>

theorem priority_concat_differs:
  "determine_priority ''Co'' ''re'' None = ''medium'' \<and>
   priority_concat ''Co'' ''re'' None = ''high''"
  by code_simp

text \<open>
  Claim C4, amended.  The priority of a customized task is found by scanning the priority
  keyword sets in the fixed order high, medium, low against the lower-cased text made of
  the archetype's title, the goal and the context (empty if absent), joined by single
  spaces; the first tier with a substring hit is returned, and "medium" when none hit.
  The archetype's baseline priority is never consulted, and "urgent" is never produced.
\<close>

theorem priority_from_keywords_only:
  "determine_priority ttl goal context =
     first_hit priority_rules ''medium''
       (lower (ttl @ '' '' @ goal @ '' '' @ or_empty context)) \<and>
   determine_priority ttl goal context \<in> {''high'', ''medium'', ''low''} \<and>
   determine_priority ttl goal context \<noteq> ''urgent'' \<and>
   (customize_task bs goal context timeline_weeks i a = Inr ct \<longrightarrow>
      priority ct = determine_priority (base_title a) goal context) \<and>
   customize_tasks (map (\<lambda>a. a\<lparr>base_priority := f a\<rparr>) bs) goal context timeline_weeks =
     customize_tasks bs goal context timeline_weeks"
proof (intro conjI impI)
  show "determine_priority ttl goal context =
     first_hit priority_rules ''medium'' (lower (ttl @ '' '' @ goal @ '' '' @ or_empty context))"
    by (simp add: determine_priority_def first_hit_def priority_rules_def
        priority_keywords_def Let_def)
  show tiers: "determine_priority ttl goal context \<in> {''high'', ''medium'', ''low''}"
    by (simp add: determine_priority_def priority_keywords_def Let_def)
  from tiers show "determine_priority ttl goal context \<noteq> ''urgent''"
    by auto
  show "priority ct = determine_priority (base_title a) goal context"
    if "customize_task bs goal context timeline_weeks i a = Inr ct"
    using that by (auto simp: customize_task_def Let_def split: sum.splits)
  show "customize_tasks (map (\<lambda>a. a\<lparr>base_priority := f a\<rparr>) bs) goal context timeline_weeks =
     customize_tasks bs goal context timeline_weeks"
    unfolding customize_tasks_def by (rule customize_loop_base_priority) simp
qed

theorem priority_from_keywords_only_witness:
  "customize_task
     [\<lparr>base_title = ''Create Documentation'', duration = 12, base_priority = ''low''\<rparr>]
     ''urgent fix'' None None 0
     \<lparr>base_title = ''Create Documentation'', duration = 12, base_priority = ''low''\<rparr> =
   Inr \<lparr>title = ''Create Documentation'',
        description = ''Create comprehensive documentation for urgent fix.'',
        priority = ''high'', estimated_duration_hours = 12, dependencies = {},
        due_date_offset_days = 0\<rparr> \<and>
   determine_priority ''Create Documentation'' ''urgent fix'' None = ''high''"
proof -
  let ?a = "\<lparr>base_title = ''Create Documentation'', duration = 12, base_priority = ''low''\<rparr>"
  let ?ct = "\<lparr>title = ''Create Documentation'',
        description = ''Create comprehensive documentation for urgent fix.'',
        priority = ''high'', estimated_duration_hours = 12, dependencies = {},
        due_date_offset_days = 0\<rparr>"
  have run: "customize_task [?a] ''urgent fix'' None None 0 ?a = Inr ?ct"
    by code_simp
  from priority_from_keywords_only
    [of "''Create Documentation''" "''urgent fix''" None "[?a]" None 0 ?a ?ct] run
  have "priority ?ct = determine_priority (base_title ?a) ''urgent fix'' None"
    by blast
  then have "determine_priority ''Create Documentation'' ''urgent fix'' None = ''high''"
    by simp
  with run show ?thesis by blast
qed

section \<open>The deploy rule\<close>

text \<open>
  Claim C7 as stated fails: the deploy rule is the \<open>elif\<close> branch of the testing rule,
  so a title that contains "testing" as well as "deploy" gets the testing rule only.
\<close>

theorem deploy_rule_skipped_for_testing_title:
  "contains ''deploy''
     (lower (title ([draft ''Test plan'', draft ''Build'', draft ''Deploy Testing''] ! 2))) \<and>
   contains ''test''
     (lower (title ([draft ''Test plan'', draft ''Build'', draft ''Deploy Testing''] ! 0))) \<and>
   0 \<notin> dependencies
         (add_dependencies [draft ''Test plan'', draft ''Build'', draft ''Deploy Testing''] ! 2)"
  by code_simp

text \<open>
  Claim C7, amended.  For every drafts list, if the lower-cased title of the task at index
  \<open>i\<close> contains "deploy" and does not contain "testing", then its dependencies include
  every earlier index \<open>j < i\<close> whose lower-cased title contains "test", in addition to
  \<open>i - 1\<close> when \<open>i > 0\<close>.
\<close>

theorem deploy_depends_on_tests:
  assumes "i < length ts"
    and "contains ''deploy'' (lower (title (ts ! i)))"
    and "\<not> contains ''testing'' (lower (title (ts ! i)))"
  shows "(\<forall>j<i. contains ''test'' (lower (title (ts ! j))) \<longrightarrow>
            j \<in> dependencies (add_dependencies ts ! i)) \<and>
         (0 < i \<longrightarrow> i - 1 \<in> dependencies (add_dependencies ts ! i))"
proof -
  from assms(1) have "dependencies (add_dependencies ts ! i) = dependencies_at ts i"
    by (simp add: nth_add_dependencies)
  with assms(2,3) show ?thesis
    by (auto simp: dependencies_at_def Let_def)
qed

theorem deploy_depends_on_tests_witness:
  "0 \<in> dependencies
         (add_dependencies [draft ''Write Tests'', draft ''Build'', draft ''Deploy it''] ! 2) \<and>
   1 \<in> dependencies
         (add_dependencies [draft ''Write Tests'', draft ''Build'', draft ''Deploy it''] ! 2)"
proof -
  let ?ts = "[draft ''Write Tests'', draft ''Build'', draft ''Deploy it'']"
  have len: "2 < length ?ts" by simp
  have dep: "contains ''deploy'' (lower (title (?ts ! 2)))" by code_simp
  have ntest: "\<not> contains ''testing'' (lower (title (?ts ! 2)))" by code_simp
  have test0: "contains ''test'' (lower (title (?ts ! 0)))" by code_simp
  from deploy_depends_on_tests [OF len dep ntest] test0
  have "0 \<in> dependencies (add_dependencies ?ts ! 2)"
    and "2 - 1 \<in> dependencies (add_dependencies ?ts ! 2)"
    by simp_all
  then show ?thesis by simp
qed

section \<open>The fallback plan\<close>

text \<open>
  Claim C1.  \<open>generate_task_breakdown\<close> returns a plan for every input: whenever a stage
  of the \<open>try\<close> block raises, the result is the fixed four-task fallback plan, with
  dependency sets \<open>{}, {0}, {1}, {2}\<close>, offsets 0, 2, 4, 6, durations 8, 16, 8, 4,
  priorities high, high, medium, high, 14 estimated days, and a reasoning string that
  embeds the message of the caught error.
\<close>

theorem fallback_on_exception:
  assumes "breakdown_body goal timeline_weeks ctx = Inl e"
  shows "map title (tasks (generate_task_breakdown goal timeline_weeks ctx)) =
           [''Plan and Research '' @ goal, ''Implement Core Features for '' @ goal,
            ''Test and Validate '' @ goal, ''Deploy and Launch '' @ goal] \<and>
         map description (tasks (generate_task_breakdown goal timeline_weeks ctx)) =
           [''Research and plan the approach for '' @ goal,
            ''Implement the main functionality for '' @ goal,
            ''Test the implementation of '' @ goal, ''Deploy and launch '' @ goal] \<and>
         map dependencies (tasks (generate_task_breakdown goal timeline_weeks ctx)) =
           [{}, {0}, {1}, {2}] \<and>
         map due_date_offset_days (tasks (generate_task_breakdown goal timeline_weeks ctx)) =
           [0, 2, 4, 6] \<and>
         map estimated_duration_hours
             (tasks (generate_task_breakdown goal timeline_weeks ctx)) =
           [8, 16, 8, 4] \<and>
         map priority (tasks (generate_task_breakdown goal timeline_weeks ctx)) =
           [''high'', ''high'', ''medium'', ''high''] \<and>
         estimated_duration_days (generate_task_breakdown goal timeline_weeks ctx) = 14 \<and>
         reasoning (generate_task_breakdown goal timeline_weeks ctx) =
           ''Generated using local AI logic. Error: '' @ error_message e"
  using assms
  by (simp add: generate_task_breakdown_def fallback_breakdown_def get_fallback_tasks_def)

theorem fallback_on_exception_witness:
  "breakdown_body ''x'' (Some long_timeline) None = Inl OverflowError \<and>
   map dependencies (tasks (generate_task_breakdown ''x'' (Some long_timeline) None)) =
     [{}, {0}, {1}, {2}] \<and>
   map estimated_duration_hours
       (tasks (generate_task_breakdown ''x'' (Some long_timeline) None)) = [8, 16, 8, 4] \<and>
   estimated_duration_days (generate_task_breakdown ''x'' (Some long_timeline) None) = 14 \<and>
   reasoning (generate_task_breakdown ''x'' (Some long_timeline) None) =
     ''Generated using local AI logic. Error: integer division result too large for a float''"
  using fallback_on_exception [OF overflow_body] overflow_body
  by simp

section \<open>Plans without a timeline\<close>

lemma adjust_duration_falsy: "\<not> truthy timeline_weeks \<Longrightarrow> adjust_duration d timeline_weeks n = Inr d"
  by (simp add: adjust_duration_def)

lemma customize_task_falsy:
  "\<not> truthy timeline_weeks \<Longrightarrow>
   customize_task bs goal ctx timeline_weeks i a =
     Inr \<lparr>title = customize_task_title (base_title a) goal ctx,
          description =
            generate_task_description (customize_task_title (base_title a) goal ctx) goal,
          priority = determine_priority (base_title a) goal ctx,
          estimated_duration_hours = duration a,
          dependencies = {},
          due_date_offset_days = int i * 2\<rparr>"
  by (simp add: customize_task_def adjust_duration_falsy Let_def)

lemma customize_loop_falsy:
  "\<not> truthy timeline_weeks \<Longrightarrow>
   \<exists>cs. customize_loop bs goal ctx timeline_weeks i ts = Inr cs \<and>
        customize_loop bs goal ctx None i ts = Inr cs \<and>
        map estimated_duration_hours cs = map duration ts"
proof (induction ts arbitrary: i)
  case Nil
  show ?case by simp
next
  case (Cons a ts)
  from Cons.IH [OF Cons.prems, of "Suc i"] obtain cs where
    "customize_loop bs goal ctx timeline_weeks (Suc i) ts = Inr cs"
    "customize_loop bs goal ctx None (Suc i) ts = Inr cs"
    "map estimated_duration_hours cs = map duration ts"
    by blast
  with Cons.prems show ?case
    by (simp add: customize_task_falsy)
qed

lemma generate_reasoning_falsy:
  "\<not> truthy timeline_weeks \<Longrightarrow>
   generate_reasoning goal goal_type n timeline_weeks =
     join '' ''
       [''Analyzed the goal '' @ [CHR 0x27] @ goal @ [CHR 0x27] @ '' and identified it as a '' @
          replace ''_'' '' '' goal_type @ '' project.'',
        ''Generated '' @ str_int (int n) @
          '' actionable tasks based on best practices for this type of project.'',
        ''Tasks are ordered logically with dependencies to ensure smooth progression.'',
        ''Priority levels are assigned based on importance and dependencies.'',
        ''Time estimates are realistic and account for potential challenges.'']"
  by (simp add: generate_reasoning_def)

lemma breakdown_body_falsy:
  assumes "\<not> truthy timeline_weeks"
  shows "\<exists>r. breakdown_body goal timeline_weeks ctx = Inr r \<and>
             breakdown_body goal None ctx = Inr r \<and>
             map estimated_duration_hours (tasks r) =
               map duration (templates_get (analyze_goal_type goal ctx)) \<and>
             reasoning r =
               generate_reasoning goal (analyze_goal_type goal ctx)
                 (length (templates_get (analyze_goal_type goal ctx))) None"
proof -
  let ?bs = "templates_get (analyze_goal_type goal ctx)"
  from customize_loop_falsy [OF assms, of ?bs goal ctx 0 ?bs] obtain cs where
    cs: "customize_tasks ?bs goal ctx timeline_weeks = Inr cs"
      "customize_tasks ?bs goal ctx None = Inr cs"
      "map estimated_duration_hours cs = map duration ?bs"
    unfolding customize_tasks_def by blast
  from cs(3) have len: "length cs = length ?bs"
    using length_map by metis
  have r: "generate_reasoning goal g n timeline_weeks = generate_reasoning goal g n None" for g n
    using assms by (simp add: generate_reasoning_falsy)
  show ?thesis
    using cs len
    by (simp add: breakdown_body_def Let_def r hours_add_dependencies length_add_dependencies)
qed

text \<open>
  Claim C9.  A timeline of 0 weeks behaves exactly as no timeline: the two calls return
  equal results for every goal and ctx, the result comes from the main path and not
  from the fallback, every duration is the archetype's baseline, and the reasoning has
  no sentence about the timeline.
\<close>

theorem zero_timeline_is_no_timeline:
  "generate_task_breakdown goal (Some 0) ctx = generate_task_breakdown goal None ctx \<and>
   breakdown_body goal (Some 0) ctx = Inr (generate_task_breakdown goal (Some 0) ctx) \<and>
   map estimated_duration_hours (tasks (generate_task_breakdown goal (Some 0) ctx)) =
     map duration (templates_get (analyze_goal_type goal ctx)) \<and>
   reasoning (generate_task_breakdown goal (Some 0) ctx) =
     join '' ''
       [''Analyzed the goal '' @ [CHR 0x27] @ goal @ [CHR 0x27] @ '' and identified it as a '' @
          replace ''_'' '' '' (analyze_goal_type goal ctx) @ '' project.'',
        ''Generated '' @
          str_int (int (length (templates_get (analyze_goal_type goal ctx)))) @
          '' actionable tasks based on best practices for this type of project.'',
        ''Tasks are ordered logically with dependencies to ensure smooth progression.'',
        ''Priority levels are assigned based on importance and dependencies.'',
        ''Time estimates are realistic and account for potential challenges.'']"
proof -
  have "\<not> truthy (Some 0)" by simp
  from breakdown_body_falsy [OF this, of goal ctx] obtain r where
    r: "breakdown_body goal (Some 0) ctx = Inr r"
      "breakdown_body goal None ctx = Inr r"
      "map estimated_duration_hours (tasks r) =
         map duration (templates_get (analyze_goal_type goal ctx))"
      "reasoning r = generate_reasoning goal (analyze_goal_type goal ctx)
         (length (templates_get (analyze_goal_type goal ctx))) None"
    by blast
  have g0: "generate_task_breakdown goal (Some 0) ctx = r"
    and gn: "generate_task_breakdown goal None ctx = r"
    by (simp_all add: generate_task_breakdown_def r)
  show ?thesis
    unfolding g0 gn using r by (simp add: generate_reasoning_falsy)
qed

theorem zero_timeline_is_no_timeline_witness:
  "map estimated_duration_hours (tasks (generate_task_breakdown ''Ship it'' (Some 0) None)) =
     [16, 12, 4, 8, 20, 40, 16, 12, 8, 8, 12, 16] \<and>
   generate_task_breakdown ''Ship it'' (Some 0) None =
     generate_task_breakdown ''Ship it'' None None"
proof -
  let ?row = "\<lambda>t. (title t, estimated_duration_hours t, dependencies t)"
  have "map (fst \<circ> snd) (map ?row (tasks (generate_task_breakdown ''Ship it'' None None))) =
      [16, 12, 4, 8, 20, 40, 16, 12, 8, 8, 12, 16]"
    unfolding ship_it_rows by simp
  then have "map estimated_duration_hours (tasks (generate_task_breakdown ''Ship it'' None None)) =
      [16, 12, 4, 8, 20, 40, 16, 12, 8, 8, 12, 16]"
    by (simp add: comp_def)
  with zero_timeline_is_no_timeline [of "''Ship it''" None] show ?thesis
    by simp
qed

section \<open>The day estimate\<close>

text \<open>
  Claim C6 as stated fails: the \<open>except\<close> branch sets 14 days whatever the hours of the
  fallback tasks, which sum to 36 and would give 4 days.
\<close>

theorem fallback_days_differ:
  "estimated_duration_days (generate_task_breakdown ''x'' (Some long_timeline) None) = 14 \<and>
   max 1 (sum_list (map estimated_duration_hours
            (tasks (generate_task_breakdown ''x'' (Some long_timeline) None))) div 8) = 4"
  by (simp add: generate_task_breakdown_def overflow_body fallback_breakdown_def
      get_fallback_tasks_def)

text \<open>
  Claim C6, amended.  Whenever no stage raises, so that the plan comes from the main path,
  its estimated days are \<open>max(1, floor(total hours / 8))\<close> over the hours of its tasks;
  in the aggregation step tasks that sum to 40 hours give 5 days and tasks that sum to
  3 hours give 1 day.
\<close>

theorem day_estimate:
  "(breakdown_body goal timeline_weeks ctx = Inr r \<longrightarrow>
      generate_task_breakdown goal timeline_weeks ctx = r \<and>
      estimated_duration_days r =
        max 1 (sum_list (map estimated_duration_hours (tasks r)) div 8)) \<and>
   (sum_list (map estimated_duration_hours ts) = 40 \<longrightarrow> estimated_days ts = 5) \<and>
   (sum_list (map estimated_duration_hours ts') = 3 \<longrightarrow> estimated_days ts' = 1)"
proof (intro conjI impI)
  assume r: "breakdown_body goal timeline_weeks ctx = Inr r"
  then show "generate_task_breakdown goal timeline_weeks ctx = r"
    by (simp add: generate_task_breakdown_def)
  from tasks_of_body [OF r] obtain cs where
    "tasks r = add_dependencies cs"
    "estimated_duration_days r = estimated_days (add_dependencies cs)"
    by blast
  then show "estimated_duration_days r =
      max 1 (sum_list (map estimated_duration_hours (tasks r)) div 8)"
    by (simp add: estimated_days_def)
next
  assume "sum_list (map estimated_duration_hours ts) = 40"
  then show "estimated_days ts = 5" by (simp add: estimated_days_def)
next
  assume "sum_list (map estimated_duration_hours ts') = 3"
  then show "estimated_days ts' = 1" by (simp add: estimated_days_def)
qed

theorem day_estimate_witness:
  "estimated_duration_days (generate_task_breakdown ''Ship it'' None None) = 21 \<and>
   estimated_days [(draft ''a'')\<lparr>estimated_duration_hours := 24\<rparr>,
                   (draft ''b'')\<lparr>estimated_duration_hours := 16\<rparr>] = 5 \<and>
   estimated_days [(draft ''a'')\<lparr>estimated_duration_hours := 3\<rparr>] = 1"
proof -
  let ?p = "generate_task_breakdown ''Ship it'' None None"
  let ?row = "\<lambda>t. (title t, estimated_duration_hours t, dependencies t)"
  let ?ts = "[(draft ''a'')\<lparr>estimated_duration_hours := 24\<rparr>,
              (draft ''b'')\<lparr>estimated_duration_hours := 16\<rparr>]"
  let ?ts' = "[(draft ''a'')\<lparr>estimated_duration_hours := 3\<rparr>]"
  have "\<not> truthy None" by simp
  from breakdown_body_falsy [OF this, of "''Ship it''" None] obtain r where
    r: "breakdown_body ''Ship it'' None None = Inr r" by blast
  have "map (fst \<circ> snd) (map ?row (tasks ?p)) = [16, 12, 4, 8, 20, 40, 16, 12, 8, 8, 12, 16]"
    unfolding ship_it_rows by simp
  then have hours: "map estimated_duration_hours (tasks ?p) =
      [16, 12, 4, 8, 20, 40, 16, 12, 8, 8, 12, 16]"
    by (simp add: comp_def)
  have s40: "sum_list (map estimated_duration_hours ?ts) = 40" by simp
  have s3: "sum_list (map estimated_duration_hours ?ts') = 3" by simp
  from day_estimate [of "''Ship it''" None None r ?ts ?ts'] r s40 s3
  have p: "?p = r"
    and "estimated_duration_days r =
      max 1 (sum_list (map estimated_duration_hours (tasks r)) div 8)"
    and "estimated_days ?ts = 5" and "estimated_days ?ts' = 1"
    by blast+
  with hours show ?thesis by simp
qed


section \<open>True division and the exact quotient\<close>

lemma round_half_even_div_bounds:
  assumes "0 < y"
  shows "x div y \<le> round_half_even_div x y"
    and "2 * (y * round_half_even_div x y) \<le> 2 * x + y"
    and "2 * x \<le> 2 * (y * round_half_even_div x y) + y"
proof -
  define f r where "f = x div y" and "r = x mod y"
  have x: "x = y * f + r" by (simp add: f_def r_def)
  have r: "0 \<le> r" "r < y" using assms by (simp_all add: r_def)
  have M: "round_half_even_div x y =
      (if 2 * r < y then f else if y < 2 * r then f + 1 else if even f then f else f + 1)"
    by (simp add: round_half_even_div_def f_def r_def Let_def)
  show "x div y \<le> round_half_even_div x y"
    unfolding M f_def [symmetric] by simp
  show "2 * (y * round_half_even_div x y) \<le> 2 * x + y"
    unfolding M using r assms by (auto simp: x algebra_simps)
  show "2 * x \<le> 2 * (y * round_half_even_div x y) + y"
    unfolding M using r assms by (auto simp: x algebra_simps)
qed

lemma scaled_real:
  assumes "0 < b"
  shows "0 < snd (scaled a b s)"
    and "real_of_int (fst (scaled a b s)) / real_of_int (snd (scaled a b s)) =
         real_of_int a / real_of_int b * 2 powi (- s)"
proof -
  show "0 < snd (scaled a b s)"
    using assms by (simp add: scaled_def)
  show "real_of_int (fst (scaled a b s)) / real_of_int (snd (scaled a b s)) =
         real_of_int a / real_of_int b * 2 powi (- s)"
  proof (cases "0 \<le> s")
    case True
    then have "(2::real) powi (- s) = 1 / 2 ^ nat s"
      by (simp add: power_int_minus_divide power_int_nonneg_exp)
    with True show ?thesis by (simp add: scaled_def)
  next
    case False
    then have "(2::real) powi (- s) = 2 ^ nat (- s)"
      by (simp add: power_int_nonneg_exp)
    with False show ?thesis by (simp add: scaled_def)
  qed
qed

lemma int_gt_float_iff: "int_gt_float d f \<longleftrightarrow> float_value f < real_of_int d"
proof (cases f)
  case (PyFloat m s)
  show ?thesis
  proof (cases "0 \<le> s")
    case True
    then have "(2::real) powi s = real_of_int (2 ^ nat s)"
      by (simp add: power_int_nonneg_exp)
    then have "float_value f = real_of_int (m * 2 ^ nat s)"
      by (simp add: PyFloat)
    with True show ?thesis
      unfolding PyFloat int_gt_float.simps by (simp only: of_int_less_iff if_True)
  next
    case False
    from False have "(2::real) powi s = 1 / 2 ^ nat (- s)"
      by (simp add: power_int_def inverse_eq_divide power_one_over)
    then have "float_value f = real_of_int m / 2 ^ nat (- s)"
      by (simp add: PyFloat)
    then have "float_value f < real_of_int d \<longleftrightarrow>
        real_of_int m < real_of_int d * 2 ^ nat (- s)"
      by (simp add: pos_divide_less_eq)
    also have "\<dots> \<longleftrightarrow> real_of_int m < real_of_int (d * 2 ^ nat (- s))"
      by simp
    also have "\<dots> \<longleftrightarrow> m < d * 2 ^ nat (- s)"
      by (simp only: of_int_less_iff)
    finally show ?thesis
      using False by (simp add: PyFloat)
  qed
qed

lemma ilog2_lower:
  assumes "0 < a" and "0 < b"
  shows "2 powi (ilog2 a b) * real_of_int b \<le> real_of_int a"
proof -
  define e0 where "e0 = bitlen a - bitlen b"
  show ?thesis
  proof (cases "if 0 \<le> e0 then b * 2 ^ nat e0 \<le> a else b \<le> a * 2 ^ nat (- e0)")
    case True
    then have e: "ilog2 a b = e0"
      unfolding ilog2_def Let_def e0_def by (rule if_P)
    show ?thesis
    proof (cases "0 \<le> e0")
      case nonneg: True
      with True have "b * 2 ^ nat e0 \<le> a" by simp
      then have "real_of_int (b * 2 ^ nat e0) \<le> real_of_int a"
        by (simp only: of_int_le_iff)
      with nonneg show ?thesis
        by (simp add: e power_int_nonneg_exp mult.commute)
    next
      case neg: False
      with True have "b \<le> a * 2 ^ nat (- e0)" by simp
      then have "real_of_int b \<le> real_of_int (a * 2 ^ nat (- e0))"
        by (simp only: of_int_le_iff)
      then have "real_of_int b / 2 ^ nat (- e0) \<le> real_of_int a"
        by (simp add: pos_divide_le_eq)
      moreover from neg have "(2::real) powi e0 = 1 / 2 ^ nat (- e0)"
        by (simp add: power_int_def inverse_eq_divide power_one_over)
      then have "2 powi e0 * real_of_int b = real_of_int b / 2 ^ nat (- e0)"
        by simp
      ultimately show ?thesis
        by (simp only: e)
    qed
  next
    case False
    then have e: "ilog2 a b = e0 - 1"
      unfolding ilog2_def Let_def e0_def by (rule if_not_P)
    from bitlen_bounds [OF assms(1)] have a: "2 ^ nat (bitlen a - 1) \<le> a" by simp
    from bitlen_bounds [OF assms(2)] have b: "b < 2 ^ nat (bitlen b)" by simp
    from assms have pos: "0 < bitlen a" "0 < bitlen b"
      using bitlen_eq_zero_iff bitlen_nonneg
      by (metis less_le not_le)+
    from a have "real_of_int (2 ^ nat (bitlen a - 1)) \<le> real_of_int a"
      by (simp only: of_int_le_iff)
    with pos have ra: "2 powi (bitlen a - 1) \<le> real_of_int a"
      by (simp add: power_int_nonneg_exp)
    from b have "real_of_int b < real_of_int (2 ^ nat (bitlen b))"
      by (simp only: of_int_less_iff)
    with pos have rb: "real_of_int b < 2 powi (bitlen b)"
      by (simp add: power_int_nonneg_exp)
    have "2 powi (e0 - 1) * real_of_int b \<le> 2 powi (e0 - 1) * 2 powi (bitlen b)"
      using rb by (simp add: mult_left_mono)
    also have "\<dots> = 2 powi (bitlen a - 1)"
      by (simp add: power_int_add [symmetric] e0_def)
    finally show ?thesis
      using ra by (simp add: e)
  qed
qed

lemma truediv_pos:
  assumes "0 < m" and "0 < n"
  shows "truediv m n =
    (if 1024 \<le> ilog2 m n then Inl OverflowError
     else if 0 \<le> max (ilog2 m n - 52) (- 1074) \<and>
             2 ^ 1024 \<le> round_half_even_div
                 (fst (scaled m n (max (ilog2 m n - 52) (- 1074))))
                 (snd (scaled m n (max (ilog2 m n - 52) (- 1074)))) *
               2 ^ nat (max (ilog2 m n - 52) (- 1074))
       then Inl OverflowError
     else Inr (PyFloat
       (round_half_even_div (fst (scaled m n (max (ilog2 m n - 52) (- 1074))))
          (snd (scaled m n (max (ilog2 m n - 52) (- 1074)))))
       (max (ilog2 m n - 52) (- 1074))))"
proof -
  from assms have "(n = 0) = False" "(m = 0) = False" "\<bar>m\<bar> = m" "\<bar>n\<bar> = n"
    "((m < 0) \<noteq> (n < 0)) = False"
    by simp_all
  then show ?thesis
    unfolding truediv_def Let_def by (simp only: if_False mult_1)
qed


text \<open>
  The shape of a quotient of positive integers: an exponent \<open>e\<close> not above the binary
  logarithm of the exact quotient, and a mantissa within one half of the exact quotient
  scaled by \<open>2 ^ s\<close>, not below its floor.
\<close>

lemma truediv_shape:
  assumes m: "0 < m" and n: "0 < n"
  shows "\<exists>M s e. s = max (e - 52) (- 1074) \<and>
      2 powi e \<le> real_of_int m / real_of_int n \<and>
      \<bar>real_of_int M * 2 powi s - real_of_int m / real_of_int n\<bar> \<le> 2 powi s / 2 \<and>
      \<lfloor>real_of_int m / real_of_int n * 2 powi (- s)\<rfloor> \<le> M \<and>
      truediv m n =
        (if 1024 \<le> e then Inl OverflowError
         else if 0 \<le> s \<and> 2 ^ 1024 \<le> M * 2 ^ nat s then Inl OverflowError
         else Inr (PyFloat M s))"
proof -
  define q where "q = real_of_int m / real_of_int n"
  define e where "e = ilog2 m n"
  define s where "s = max (e - 52) (- 1074)"
  define x y where "x = fst (scaled m n s)" and "y = snd (scaled m n s)"
  define M where "M = round_half_even_div x y"
  have rn: "1 \<le> real_of_int n"
    using n by simp
  from ilog2_lower [OF m n] have "2 powi e * real_of_int n \<le> real_of_int m"
    by (simp add: e_def)
  then have e_lo: "2 powi e \<le> q"
    using rn by (simp add: q_def pos_le_divide_eq)
  have y_pos: "0 < y"
    using scaled_real(1) [OF n] by (simp add: y_def)
  have xy: "real_of_int x / real_of_int y = q * 2 powi (- s)"
    using scaled_real(2) [OF n] by (simp add: x_def y_def q_def)
  have p_pos: "(0::real) < 2 powi s" by simp
  have unit: "(2::real) powi (- s) * 2 powi s = 1"
    by (simp add: power_int_minus)
  from round_half_even_div_bounds(2) [OF y_pos, of x]
  have "real_of_int (2 * (y * M)) \<le> real_of_int (2 * x + y)"
    unfolding M_def by (simp only: of_int_le_iff)
  then have "real_of_int M * (2 * real_of_int y) \<le> 2 * real_of_int x + real_of_int y"
    by (simp add: mult_ac)
  then have "real_of_int M \<le> (2 * real_of_int x + real_of_int y) / (2 * real_of_int y)"
    using y_pos by (simp add: pos_le_divide_eq)
  also have "\<dots> = real_of_int x / real_of_int y + 1 / 2"
    using y_pos by (simp add: field_simps)
  finally have "real_of_int M \<le> q * 2 powi (- s) + 1 / 2"
    by (simp add: xy)
  then have "real_of_int M * 2 powi s \<le> (q * 2 powi (- s) + 1 / 2) * 2 powi s"
    using p_pos by (simp add: mult_right_mono)
  also have "\<dots> = q * (2 powi (- s) * 2 powi s) + 2 powi s / 2"
    by (simp add: algebra_simps)
  finally have M_hi: "real_of_int M * 2 powi s \<le> q + 2 powi s / 2"
    by (simp only: unit mult_1_right)
  from round_half_even_div_bounds(3) [OF y_pos, of x]
  have "real_of_int (2 * x) \<le> real_of_int (2 * (y * M) + y)"
    unfolding M_def by (simp only: of_int_le_iff)
  then have "2 * real_of_int x - real_of_int y \<le> real_of_int M * (2 * real_of_int y)"
    by (simp add: mult_ac)
  then have "(2 * real_of_int x - real_of_int y) / (2 * real_of_int y) \<le> real_of_int M"
    using y_pos by (simp add: pos_divide_le_eq)
  moreover have "(2 * real_of_int x - real_of_int y) / (2 * real_of_int y) =
      real_of_int x / real_of_int y - 1 / 2"
    using y_pos by (simp add: field_simps)
  ultimately have "q * 2 powi (- s) - 1 / 2 \<le> real_of_int M"
    by (simp add: xy)
  then have "(q * 2 powi (- s) - 1 / 2) * 2 powi s \<le> real_of_int M * 2 powi s"
    using p_pos by (simp add: mult_right_mono)
  moreover have "(q * 2 powi (- s) - 1 / 2) * 2 powi s =
      q * (2 powi (- s) * 2 powi s) - 2 powi s / 2"
    by (simp add: algebra_simps)
  ultimately have M_lo: "q - 2 powi s / 2 \<le> real_of_int M * 2 powi s"
    by (simp only: unit mult_1_right)
  from M_hi M_lo have err: "\<bar>real_of_int M * 2 powi s - q\<bar> \<le> 2 powi s / 2"
    by linarith
  have fl: "\<lfloor>q * 2 powi (- s)\<rfloor> \<le> M"
    using round_half_even_div_bounds(1) [OF y_pos, of x]
    by (simp add: M_def floor_divide_of_int_eq xy [symmetric])
  have td: "truediv m n =
      (if 1024 \<le> e then Inl OverflowError
       else if 0 \<le> s \<and> 2 ^ 1024 \<le> M * 2 ^ nat s then Inl OverflowError
       else Inr (PyFloat M s))"
    unfolding truediv_pos [OF m n] M_def x_def y_def s_def e_def ..
  from e_lo err fl td show ?thesis
    unfolding q_def s_def by blast
qed

text \<open>The division returns when the exact quotient is below \<open>2 ^ 1023\<close>.\<close>

lemma truediv_returns:
  assumes m: "0 < m" and n: "0 < n"
    and qb: "real_of_int m / real_of_int n < 2 ^ 1023"
  shows "\<exists>f. truediv m n = Inr f"
proof -
  define q where "q = real_of_int m / real_of_int n"
  from truediv_shape [OF m n] obtain M s e where
    s_def: "s = max (e - 52) (- 1074)"
    and e_lo: "2 powi e \<le> q"
    and err: "\<bar>real_of_int M * 2 powi s - q\<bar> \<le> 2 powi s / 2"
    and td: "truediv m n =
      (if 1024 \<le> e then Inl OverflowError
       else if 0 \<le> s \<and> 2 ^ 1024 \<le> M * 2 ^ nat s then Inl OverflowError
       else Inr (PyFloat M s))"
    unfolding q_def by blast
  from qb have q_lt: "q < 2 powi 1023" by (simp add: q_def)
  have q_pos: "0 < q" using m n by (simp add: q_def)
  have e_lt: "e < 1023"
  proof (rule ccontr)
    assume "\<not> e < 1023"
    then have "(2::real) powi 1023 \<le> 2 powi e"
      by (intro power_int_increasing) simp_all
    with e_lo q_lt show False by simp
  qed
  have no_overflow: "\<not> (0 \<le> s \<and> 2 ^ 1024 \<le> M * 2 ^ nat s)"
  proof
    assume a: "0 \<le> s \<and> 2 ^ 1024 \<le> M * 2 ^ nat s"
    then have "real_of_int (2 ^ 1024) \<le> real_of_int (M * 2 ^ nat s)"
      by (simp only: of_int_le_iff)
    with a have big: "2 powi 1024 \<le> real_of_int M * 2 powi s"
      by (simp add: power_int_nonneg_exp)
    from a have "0 \<le> s" by (rule conjunct1)
    then have "s = e - 52" by (simp add: s_def max_def split: if_splits)
    then have "(2::real) powi s \<le> 2 powi e"
      by (intro power_int_increasing) simp_all
    with e_lo q_pos have "2 powi s / 2 \<le> q"
      by linarith
    with err have "real_of_int M * 2 powi s \<le> q + q" by linarith
    also have "\<dots> < 2 powi 1023 + 2 powi 1023"
      using q_lt by simp
    also have "\<dots> = 2 powi 1024" by simp
    finally show False using big by simp
  qed
  from e_lt have e_small: "\<not> 1024 \<le> e" by simp
  have "truediv m n = Inr (PyFloat M s)"
    using e_small no_overflow unfolding td by (simp only: if_False)
  then show ?thesis by blast
qed

text \<open>
  A returned quotient is within half a unit in the last place of the exact one: a
  relative error of at most \<open>2 ^ - 53\<close>, or \<open>2 ^ - 1075\<close> for subnormal values.
\<close>

lemma truediv_error:
  assumes m: "0 < m" and n: "0 < n" and f: "truediv m n = Inr f"
  shows "\<bar>float_value f - real_of_int m / real_of_int n\<bar> \<le>
         max (real_of_int m / real_of_int n / 2 ^ 53) (2 powi (- 1075))"
proof -
  define q where "q = real_of_int m / real_of_int n"
  from truediv_shape [OF m n] obtain M s e where
    s_def: "s = max (e - 52) (- 1074)"
    and e_lo: "2 powi e \<le> q"
    and err: "\<bar>real_of_int M * 2 powi s - q\<bar> \<le> 2 powi s / 2"
    and td: "truediv m n =
      (if 1024 \<le> e then Inl OverflowError
       else if 0 \<le> s \<and> 2 ^ 1024 \<le> M * 2 ^ nat s then Inl OverflowError
       else Inr (PyFloat M s))"
    unfolding q_def by blast
  from f td have "f = PyFloat M s"
    by (auto split: if_splits)
  then have fv: "float_value f = real_of_int M * 2 powi s" by simp
  have "2 powi s / 2 \<le> max (q / 2 ^ 53) (2 powi (- 1075))"
  proof (cases "- 1074 \<le> e - 52")
    case True
    then have "s = e - 52" by (simp add: s_def)
    then have "(2::real) powi s / 2 = 2 powi e / 2 ^ 53"
      by (simp add: power_int_diff)
    also have "\<dots> \<le> q / 2 ^ 53"
      using e_lo by (simp add: divide_right_mono)
    finally show ?thesis by simp
  next
    case False
    then have "s = - 1074" by (simp add: s_def)
    then have "(2::real) powi s / 2 = 2 powi (- 1075)"
      by (simp add: power_int_minus)
    then show ?thesis by simp
  qed
  with err show ?thesis
    unfolding fv q_def by linarith
qed

text \<open>
  When \<open>d * n\<close> is at most \<open>2 ^ 53\<close>, comparing \<open>d\<close> with a returned quotient gives the
  same answer as comparing it with the exact one.
\<close>

lemma truediv_compare:
  assumes m: "0 < m" and n: "0 < n" and f: "truediv m n = Inr f"
    and dn: "d * n \<le> 2 ^ 53"
  shows "int_gt_float d f \<longleftrightarrow> m < d * n"
proof -
  define q where "q = real_of_int m / real_of_int n"
  from truediv_shape [OF m n] obtain M s e where
    s_def: "s = max (e - 52) (- 1074)"
    and e_lo: "2 powi e \<le> q"
    and err: "\<bar>real_of_int M * 2 powi s - q\<bar> \<le> 2 powi s / 2"
    and fl: "\<lfloor>q * 2 powi (- s)\<rfloor> \<le> M"
    and td: "truediv m n =
      (if 1024 \<le> e then Inl OverflowError
       else if 0 \<le> s \<and> 2 ^ 1024 \<le> M * 2 ^ nat s then Inl OverflowError
       else Inr (PyFloat M s))"
    unfolding q_def by blast
  from f td have f_eq: "f = PyFloat M s"
    by (auto split: if_splits)
  have rn: "1 \<le> real_of_int n" using n by simp
  have q_pos: "0 < q" using m n by (simp add: q_def)
  have p_pos: "(0::real) < 2 powi s" by simp
  have unit: "(2::real) powi (- s) * 2 powi s = 1"
    by (simp add: power_int_minus)
  from err have M_hi: "real_of_int M * 2 powi s \<le> q + 2 powi s / 2"
    by linarith
  have s_nonneg: "s = e - 52" if "0 \<le> s"
    using that by (simp add: s_def max_def split: if_splits)
  have d_le: "real_of_int d \<le> 2 ^ 53"
  proof (cases "0 < d")
    case True
    with n have "d \<le> d * n" by simp
    with dn have "d \<le> 2 ^ 53" by simp
    then have "real_of_int d \<le> real_of_int (2 ^ 53)" by (simp only: of_int_le_iff)
    then show ?thesis by simp
  next
    case False
    then have "real_of_int d \<le> 0" by simp
    then show ?thesis by simp
  qed
  have below: "real_of_int M * 2 powi s < real_of_int d" if lt: "m < d * n"
  proof -
    from lt have "m + 1 \<le> d * n" by simp
    then have "real_of_int (m + 1) \<le> real_of_int (d * n)" by (simp only: of_int_le_iff)
    then have "(real_of_int m + 1) / real_of_int n \<le> real_of_int d"
      using rn by (simp add: pos_divide_le_eq)
    then have gap: "q + 1 / real_of_int n \<le> real_of_int d"
      by (simp add: q_def add_divide_distrib)
    then have q_d: "q < real_of_int d"
      using rn by (simp add: add_pos_pos less_le_trans [OF _ gap])
    from dn have "real_of_int (d * n) \<le> real_of_int (2 ^ 53)" by (simp only: of_int_le_iff)
    then have dn': "real_of_int d * real_of_int n \<le> 2 ^ 53" by simp
    have "2 powi s * real_of_int n < 2"
    proof (cases "- 1074 \<le> e - 52")
      case True
      then have "s = e - 52" by (simp add: s_def)
      then have "(2::real) powi s = 2 powi e / 2 ^ 52"
        by (simp add: power_int_diff)
      then have eq: "2 powi s * real_of_int n = (2 powi e * real_of_int n) / 2 ^ 52"
        by simp
      from e_lo q_d have "2 powi e * real_of_int n < real_of_int d * real_of_int n"
        using rn by (simp add: mult_strict_right_mono)
      with dn' have "2 powi e * real_of_int n < 2 ^ 53" by simp
      then have "(2 powi e * real_of_int n) / 2 ^ 52 < 2 ^ 53 / 2 ^ 52"
        by (simp only: divide_strict_right_mono zero_less_power zero_less_numeral)
      then have "2 powi s * real_of_int n < 2 ^ 53 / 2 ^ 52"
        by (simp only: eq)
      also have "\<dots> = (2::real)" by simp
      finally show ?thesis .
    next
      case False
      then have "s = - 1074" by (simp add: s_def)
      moreover have "(2::real) powi (- 1074) \<le> 2 powi (- 53)"
        by (rule power_int_increasing) simp_all
      ultimately have "(2::real) powi s \<le> 2 powi (- 53)"
        by (simp only:)
      moreover from q_pos q_d have "1 \<le> d" by simp
      then have "real_of_int n \<le> real_of_int d * real_of_int n"
        using rn by (simp add: mult_le_cancel_right1)
      with dn' have "real_of_int n \<le> 2 ^ 53" by simp
      ultimately have "2 powi s * real_of_int n \<le> 2 powi (- 53) * 2 ^ 53"
        using rn by (intro mult_mono) simp_all
      also have "\<dots> = (1::real)" by (simp add: power_int_minus)
      finally show ?thesis by simp
    qed
    then have "2 powi s / 2 < 1 / real_of_int n"
      using rn by (simp add: field_simps)
    with M_hi gap show ?thesis by linarith
  qed
  have above: "real_of_int d \<le> real_of_int M * 2 powi s" if le: "d * n \<le> m"
  proof -
    from le have "real_of_int (d * n) \<le> real_of_int m" by (simp only: of_int_le_iff)
    then have d_q: "real_of_int d \<le> q"
      using rn by (simp add: q_def pos_le_divide_eq)
    show ?thesis
    proof (cases "s \<le> 0")
      case True
      then have p: "(2::real) powi (- s) = 2 ^ nat (- s)"
        by (simp add: power_int_nonneg_exp)
      from d_q have "real_of_int d * 2 powi (- s) \<le> q * 2 powi (- s)"
        by (simp add: mult_right_mono)
      then have "real_of_int (d * 2 ^ nat (- s)) \<le> q * 2 powi (- s)"
        by (simp add: p)
      then have "d * 2 ^ nat (- s) \<le> \<lfloor>q * 2 powi (- s)\<rfloor>"
        by (simp only: le_floor_iff)
      from this fl have "d * 2 ^ nat (- s) \<le> M" by (rule order_trans)
      then have "real_of_int (d * 2 ^ nat (- s)) \<le> real_of_int M"
        by (simp only: of_int_le_iff)
      then have "real_of_int d * 2 powi (- s) \<le> real_of_int M"
        by (simp add: p)
      then have "real_of_int d * 2 powi (- s) * 2 powi s \<le> real_of_int M * 2 powi s"
        using p_pos by (simp only: mult_right_mono less_imp_le)
      then show ?thesis
        by (simp only: mult.assoc unit mult_1_right)
    next
      case False
      then have "0 \<le> s" and s1: "1 \<le> s" by simp_all
      from this(1) have "s = e - 52" by (rule s_nonneg)
      note s = this s1
      then have "(2::real) powi e * 2 powi (- s) = 2 powi 52"
        by (simp add: power_int_add [symmetric])
      moreover from e_lo have "2 powi e * 2 powi (- s) \<le> q * 2 powi (- s)"
        by (simp add: mult_right_mono)
      ultimately have "real_of_int (2 ^ 52) \<le> q * 2 powi (- s)"
        by simp
      then have "2 ^ 52 \<le> \<lfloor>q * 2 powi (- s)\<rfloor>"
        by (simp only: le_floor_iff)
      from this fl have "2 ^ 52 \<le> M" by (rule order_trans)
      then have "real_of_int (2 ^ 52) \<le> real_of_int M" by (simp only: of_int_le_iff)
      then have M52: "2 ^ 52 \<le> real_of_int M" by simp
      from s have "(2::real) powi 1 \<le> 2 powi s"
        by (intro power_int_increasing) simp_all
      then have two: "2 \<le> (2::real) powi s" by simp
      have "(2::real) ^ 53 = 2 ^ 52 * 2" by simp
      also have "\<dots> \<le> real_of_int M * 2 powi s"
        using M52 two by (intro mult_mono) simp_all
      finally show ?thesis using d_le by simp
    qed
  qed
  have "float_value (PyFloat M s) < real_of_int d \<longleftrightarrow> m < d * n"
    using below above by (auto simp: not_less [symmetric])
  then show ?thesis
    by (simp only: int_gt_float_iff f_eq)
qed


section \<open>Duration scaling\<close>

lemma adjust_duration_float:
  assumes "0 < tw" and "adjust_duration d (Some tw) n = Inr h"
  shows "\<exists>f. truediv (tw * 40) (int n) = Inr f \<and>
           h = (if real_of_int d \<le> float_value f then d else max 4 (tw * 40 div int n))"
proof -
  from assms(1) have "truthy (Some tw)" by simp
  with assms(2) obtain f where f: "truediv (tw * 40) (int n) = Inr f"
    and h: "h = (if int_gt_float d f then max 4 (tw * 40 div int n) else d)"
    by (auto simp: adjust_duration_def Let_def split: sum.splits if_splits)
  from h have "h = (if real_of_int d \<le> float_value f then d else max 4 (tw * 40 div int n))"
    by (simp add: int_gt_float_iff not_less [symmetric])
  with f show ?thesis by blast
qed

lemma adjust_duration_floor:
  "adjust_duration d timeline_weeks n = Inr h \<Longrightarrow> h = d \<or> 4 \<le> h"
  by (auto simp: adjust_duration_def Let_def split: sum.splits if_splits)

lemma adjust_duration_clamped:
  assumes "adjust_duration d (Some w) n = Inr h" and "w \<noteq> 0"
    and "truediv (w * 40) (int n) = Inr f" and "float_value f < real_of_int d"
  shows "h = max 4 (w * 40 div int n)"
  using assms by (simp add: adjust_duration_def Let_def int_gt_float_iff)

lemma adjust_duration_returns:
  assumes "0 < tw" and "0 < n" and "real_of_int (tw * 40) / real n < 2 ^ 1023"
  shows "\<exists>h. adjust_duration d (Some tw) n = Inr h"
proof -
  from assms have "0 < tw * 40" "0 < int n"
    and "real_of_int (tw * 40) / real_of_int (int n) < 2 ^ 1023"
    by simp_all
  from truediv_returns [OF this] obtain f where "truediv (tw * 40) (int n) = Inr f"
    by blast
  then show ?thesis
    by (simp add: adjust_duration_def Let_def)
qed

lemma customize_task_hours:
  "customize_task bs goal ctx timeline_weeks i a = Inr ct \<Longrightarrow>
   adjust_duration (duration a) timeline_weeks (length bs) = Inr (estimated_duration_hours ct)"
  by (auto simp: customize_task_def Let_def split: sum.splits)

lemma customize_loop_hours:
  "customize_loop bs goal ctx timeline_weeks i ts = Inr cs \<Longrightarrow>
   length cs = length ts \<and>
   (\<forall>k<length ts. adjust_duration (duration (ts ! k)) timeline_weeks (length bs) =
                     Inr (estimated_duration_hours (cs ! k)))"
proof (induction ts arbitrary: i cs)
  case Nil
  then show ?case by simp
next
  case (Cons a ts)
  from Cons.prems obtain ct cts where
    ct: "customize_task bs goal ctx timeline_weeks i a = Inr ct"
    and cts: "customize_loop bs goal ctx timeline_weeks (Suc i) ts = Inr cts"
    and cs: "cs = ct # cts"
    by (auto split: sum.splits)
  from Cons.IH [OF cts] customize_task_hours [OF ct] show ?case
    by (auto simp: cs nth_Cons')
qed

lemma customize_loop_returns:
  "\<forall>a\<in>set ts. \<exists>h. adjust_duration (duration a) timeline_weeks (length bs) = Inr h \<Longrightarrow>
   \<exists>cs. customize_loop bs goal ctx timeline_weeks i ts = Inr cs"
proof (induction ts arbitrary: i)
  case Nil
  show ?case by simp
next
  case (Cons a ts)
  from Cons.prems obtain h where
    "adjust_duration (duration a) timeline_weeks (length bs) = Inr h"
    by auto
  then have "\<exists>ct. customize_task bs goal ctx timeline_weeks i a = Inr ct"
    by (simp add: customize_task_def Let_def)
  moreover from Cons.prems have
    "\<exists>cs. customize_loop bs goal ctx timeline_weeks (Suc i) ts = Inr cs"
    by (intro Cons.IH) simp
  ultimately show ?case by auto
qed

lemma customize_tasks_returns:
  assumes "0 < tw" and "real_of_int (tw * 40) / real (length bs) < 2 ^ 1023"
  shows "\<exists>cs. customize_tasks bs goal ctx (Some tw) = Inr cs"
proof (cases "bs = []")
  case True
  then show ?thesis by (simp add: customize_tasks_def)
next
  case False
  then have "0 < length bs" by simp
  from adjust_duration_returns [OF assms(1) this assms(2)]
  have "\<forall>a\<in>set bs. \<exists>h. adjust_duration (duration a) (Some tw) (length bs) = Inr h"
    by blast
  then show ?thesis
    unfolding customize_tasks_def by (rule customize_loop_returns)
qed

lemma customize_tasks_hours:
  assumes "customize_tasks bs goal ctx timeline_weeks = Inr cs" and "i < length bs"
  shows "adjust_duration (duration (bs ! i)) timeline_weeks (length bs) =
      Inr (estimated_duration_hours (cs ! i))"
proof -
  from assms(1) have
    "\<forall>k<length bs. adjust_duration (duration (bs ! k)) timeline_weeks (length bs) =
       Inr (estimated_duration_hours (cs ! k))"
    unfolding customize_tasks_def using customize_loop_hours by blast
  with assms(2) show ?thesis by blast
qed

lemma customize_tasks_floor:
  assumes "customize_tasks bs goal ctx timeline_weeks = Inr cs" and "i < length bs"
  shows "estimated_duration_hours (cs ! i) = duration (bs ! i) \<or>
         4 \<le> estimated_duration_hours (cs ! i)"
  using customize_tasks_hours [OF assms] by (rule adjust_duration_floor)

lemma customize_tasks_clamped:
  assumes "customize_tasks bs goal ctx (Some w) = Inr cs" and "i < length bs"
    and "w \<noteq> 0" and "truediv (w * 40) (int (length bs)) = Inr f"
    and "float_value f < real_of_int (duration (bs ! i))"
  shows "estimated_duration_hours (cs ! i) = max 4 (w * 40 div int (length bs))"
  using customize_tasks_hours [OF assms(1,2)] assms(3,4,5) by (rule adjust_duration_clamped)

text \<open>
  Claim C5 as stated fails: the comparison is against the float
  \<open>max_hours / len(base_tasks)\<close>.  With one archetype of baseline
  \<open>360287970189639745\<close> and a timeline of \<open>9007199254740994\<close> weeks the quotient
  \<open>360287970189639760\<close> rounds to \<open>360287970189639744\<close>, below the baseline, so the
  duration is clamped although the baseline does not exceed the exact quotient.
\<close>

theorem duration_scaling_float_rounding:
  "customize_tasks
     [\<lparr>base_title = ''T'', duration = 360287970189639745, base_priority = ''high''\<rparr>]
     ''g'' None (Some 9007199254740994) =
   Inr [\<lparr>title = ''T'', description = ''Complete the t phase for g.'', priority = ''medium'',
         estimated_duration_hours = 360287970189639760, dependencies = {},
         due_date_offset_days = 0\<rparr>] \<and>
   scaled_duration 360287970189639745 9007199254740994 1 = 360287970189639745"
proof
  show "customize_tasks
     [\<lparr>base_title = ''T'', duration = 360287970189639745, base_priority = ''high''\<rparr>]
     ''g'' None (Some 9007199254740994) =
   Inr [\<lparr>title = ''T'', description = ''Complete the t phase for g.'', priority = ''medium'',
         estimated_duration_hours = 360287970189639760, dependencies = {},
         due_date_offset_days = 0\<rparr>]"
    by code_simp
  show "scaled_duration 360287970189639745 9007199254740994 1 = 360287970189639745"
    by (simp add: scaled_duration_def)
qed

text \<open>
  Claim C5, amended.  For every archetype list and every supplied positive integer
  timelineWeeks on which customization returns, each task's duration equals its baseline
  when the baseline does not exceed the float quotient
  \<open>(timelineWeeks * 40) / archetypeCount\<close>, and otherwise equals
  \<open>max(4, floor((timelineWeeks * 40) / archetypeCount))\<close>.  The float quotient is the
  exact one rounded to binary64: they differ by at most the exact quotient times
  \<open>2 ^ - 53\<close> (or by \<open>2 ^ - 1075\<close>), and for a baseline with
  \<open>baseline * archetypeCount \<le> 2 ^ 53\<close> the comparison is the one with the exact
  quotient.  Customization returns whenever the exact quotient is below \<open>2 ^ 1023\<close>.
  For every timeline and every catalog on which customization returns, a clamped
  duration is \<open>max(4, floor((timelineWeeks * 40) / archetypeCount))\<close>, hence at least
  4 hours, and a duration that is not the baseline is at least 4 hours; with
  timelineWeeks = 1 customization returns for every catalog.
\<close>

theorem duration_scaling:
  assumes "0 < tw"
  shows "(real_of_int (tw * 40) / real (length bs) < 2 ^ 1023 \<longrightarrow>
            (\<exists>cs. customize_tasks bs goal ctx (Some tw) = Inr cs)) \<and>
         (customize_tasks bs goal ctx (Some tw) = Inr cs \<longrightarrow>
            length cs = length bs \<and>
            (\<forall>i<length bs.
               (\<exists>f. truediv (tw * 40) (int (length bs)) = Inr f \<and>
                  \<bar>float_value f - real_of_int (tw * 40) / real (length bs)\<bar> \<le>
                    max (real_of_int (tw * 40) / real (length bs) / 2 ^ 53)
                        (2 powi (- 1075)) \<and>
                  estimated_duration_hours (cs ! i) =
                    (if real_of_int (duration (bs ! i)) \<le> float_value f
                     then duration (bs ! i)
                     else max 4 (tw * 40 div int (length bs)))) \<and>
               (duration (bs ! i) * int (length bs) \<le> 2 ^ 53 \<longrightarrow>
                  estimated_duration_hours (cs ! i) =
                    (if real_of_int (duration (bs ! i)) \<le>
                          real_of_int (tw * 40) / real (length bs)
                     then duration (bs ! i)
                     else max 4 (tw * 40 div int (length bs)))))) \<and>
         (customize_tasks bs goal ctx timeline_weeks = Inr cs' \<longrightarrow>
            (\<forall>i<length bs.
               (estimated_duration_hours (cs' ! i) = duration (bs ! i) \<or>
                4 \<le> estimated_duration_hours (cs' ! i)) \<and>
               (\<forall>w f. timeline_weeks = Some w \<and> w \<noteq> 0 \<and>
                  truediv (w * 40) (int (length bs)) = Inr f \<and>
                  float_value f < real_of_int (duration (bs ! i)) \<longrightarrow>
                  estimated_duration_hours (cs' ! i) = max 4 (w * 40 div int (length bs)) \<and>
                  4 \<le> estimated_duration_hours (cs' ! i)))) \<and>
         (\<exists>cs1. customize_tasks bs goal ctx (Some 1) = Inr cs1 \<and>
            (\<forall>i<length bs.
               estimated_duration_hours (cs1 ! i) = duration (bs ! i) \<or>
               4 \<le> estimated_duration_hours (cs1 ! i)))"
proof (intro conjI impI allI)
  assume "real_of_int (tw * 40) / real (length bs) < 2 ^ 1023"
  with assms show "\<exists>cs. customize_tasks bs goal ctx (Some tw) = Inr cs"
    by (rule customize_tasks_returns)
next
  assume cs: "customize_tasks bs goal ctx (Some tw) = Inr cs"
  then show "length cs = length bs"
    unfolding customize_tasks_def using customize_loop_hours by blast
next
  fix i
  assume cs: "customize_tasks bs goal ctx (Some tw) = Inr cs" and i: "i < length bs"
  let ?m = "tw * 40" and ?n = "length bs" and ?d = "duration (bs ! i)"
  from i have n: "0 < int ?n" by (cases bs) simp_all
  then have rn: "0 < real ?n" by simp
  from assms have m: "0 < ?m" by simp
  from cs i have "adjust_duration ?d (Some tw) ?n = Inr (estimated_duration_hours (cs ! i))"
    unfolding customize_tasks_def using customize_loop_hours by blast
  from adjust_duration_float [OF assms this] obtain f where
    f: "truediv ?m (int ?n) = Inr f"
    and h: "estimated_duration_hours (cs ! i) =
      (if real_of_int ?d \<le> float_value f then ?d else max 4 (?m div int ?n))"
    by blast
  from truediv_error [OF m n f]
  have err: "\<bar>float_value f - real_of_int ?m / real ?n\<bar> \<le>
      max (real_of_int ?m / real ?n / 2 ^ 53) (2 powi (- 1075))"
    by simp
  from f err h
  show "\<exists>f. truediv ?m (int ?n) = Inr f \<and>
      \<bar>float_value f - real_of_int ?m / real ?n\<bar> \<le>
        max (real_of_int ?m / real ?n / 2 ^ 53) (2 powi (- 1075)) \<and>
      estimated_duration_hours (cs ! i) =
        (if real_of_int ?d \<le> float_value f then ?d else max 4 (?m div int ?n))"
    by blast
  show "estimated_duration_hours (cs ! i) =
      (if real_of_int ?d \<le> real_of_int ?m / real ?n then ?d else max 4 (?m div int ?n))"
    if dn: "?d * int ?n \<le> 2 ^ 53"
  proof -
    from truediv_compare [OF m n f dn]
    have "float_value f < real_of_int ?d \<longleftrightarrow> ?m < ?d * int ?n"
      by (simp only: int_gt_float_iff)
    also have "\<dots> \<longleftrightarrow> real_of_int ?m < real_of_int (?d * int ?n)"
      by (simp only: of_int_less_iff)
    also have "\<dots> \<longleftrightarrow> real_of_int ?m / real ?n < real_of_int ?d"
      using rn by (simp add: pos_divide_less_eq)
    finally have "real_of_int ?d \<le> float_value f \<longleftrightarrow>
        real_of_int ?d \<le> real_of_int ?m / real ?n"
      by (simp only: not_less [symmetric])
    with h show ?thesis by simp
  qed
next
  fix i
  assume "customize_tasks bs goal ctx timeline_weeks = Inr cs'" and "i < length bs"
  then show "estimated_duration_hours (cs' ! i) = duration (bs ! i) \<or>
      4 \<le> estimated_duration_hours (cs' ! i)"
    by (rule customize_tasks_floor)
next
  fix i w f
  assume cs': "customize_tasks bs goal ctx timeline_weeks = Inr cs'" and i: "i < length bs"
    and w: "timeline_weeks = Some w \<and> w \<noteq> 0 \<and>
      truediv (w * 40) (int (length bs)) = Inr f \<and>
      float_value f < real_of_int (duration (bs ! i))"
  from cs' w have "customize_tasks bs goal ctx (Some w) = Inr cs'" by simp
  from customize_tasks_clamped [OF this i] w
  have h: "estimated_duration_hours (cs' ! i) = max 4 (w * 40 div int (length bs))"
    by blast
  show "estimated_duration_hours (cs' ! i) = max 4 (w * 40 div int (length bs))"
    by (rule h)
  show "4 \<le> estimated_duration_hours (cs' ! i)"
    unfolding h by simp
next
  have "real_of_int (1 * 40) / real (length bs) \<le> 40"
  proof (cases bs)
    case Nil
    then show ?thesis by simp
  next
    case (Cons a as)
    then have n1: "1 \<le> real (length bs)" by simp
    then have pos: "0 < real (length bs)" by linarith
    have "40 / real (length bs) \<le> (40::real)"
      unfolding pos_divide_le_eq [OF pos] using n1 by linarith
    then show ?thesis by simp
  qed
  then have "real_of_int (1 * 40) / real (length bs) < 2 ^ 1023"
    by (rule le_less_trans) simp
  from customize_tasks_returns [OF _ this, of goal ctx] obtain cs1 where
    "customize_tasks bs goal ctx (Some 1) = Inr cs1"
    by auto
  then show "\<exists>cs1. customize_tasks bs goal ctx (Some 1) = Inr cs1 \<and>
      (\<forall>i<length bs.
         estimated_duration_hours (cs1 ! i) = duration (bs ! i) \<or>
         4 \<le> estimated_duration_hours (cs1 ! i))"
    using customize_tasks_floor by blast
qed

theorem duration_scaling_witness:
  "customize_tasks
     [\<lparr>base_title = ''Plan'', duration = 30, base_priority = ''low''\<rparr>,
      \<lparr>base_title = ''Build Product'', duration = 10, base_priority = ''low''\<rparr>]
     ''web shop'' None (Some 1) =
   Inr [\<lparr>title = ''Plan'', description = ''Complete the plan phase for web shop.'',
         priority = ''medium'', estimated_duration_hours = 20, dependencies = {},
         due_date_offset_days = 0\<rparr>,
        \<lparr>title = ''Build Website'',
         description = ''Complete the build website phase for web shop.'',
         priority = ''medium'', estimated_duration_hours = 10, dependencies = {},
         due_date_offset_days = 2\<rparr>] \<and>
   (20 :: int) = max 4 (1 * 40 div 2) \<and> (4 :: int) \<le> 20"
proof -
  let ?bs = "[\<lparr>base_title = ''Plan'', duration = 30, base_priority = ''low''\<rparr>,
      \<lparr>base_title = ''Build Product'', duration = 10, base_priority = ''low''\<rparr>]"
  let ?cs = "[\<lparr>title = ''Plan'', description = ''Complete the plan phase for web shop.'',
         priority = ''medium'', estimated_duration_hours = 20, dependencies = {},
         due_date_offset_days = 0\<rparr>,
        \<lparr>title = ''Build Website'',
         description = ''Complete the build website phase for web shop.'',
         priority = ''medium'', estimated_duration_hours = 10, dependencies = {},
         due_date_offset_days = 2\<rparr>]"
  have run: "customize_tasks ?bs ''web shop'' None (Some 1) = Inr ?cs"
    by code_simp
  have h1: "(0::int) < 1" by simp
  have i: "0 < length ?bs" by simp
  have small: "duration (?bs ! 0) * int (length ?bs) \<le> 2 ^ 53" by simp
  from duration_scaling [OF h1, of ?bs "''web shop''" None ?cs "Some 1" ?cs] run
  have "\<forall>i<length ?bs.
      (duration (?bs ! i) * int (length ?bs) \<le> 2 ^ 53 \<longrightarrow>
         estimated_duration_hours (?cs ! i) =
           (if real_of_int (duration (?bs ! i)) \<le> real_of_int (1 * 40) / real (length ?bs)
            then duration (?bs ! i)
            else max 4 (1 * 40 div int (length ?bs))))"
    and "\<forall>i<length ?bs.
      estimated_duration_hours (?cs ! i) = duration (?bs ! i) \<or>
      4 \<le> estimated_duration_hours (?cs ! i)"
    by blast+
  with i small have "estimated_duration_hours (?cs ! 0) =
      (if real_of_int (duration (?bs ! 0)) \<le> real_of_int (1 * 40) / real (length ?bs)
       then duration (?bs ! 0)
       else max 4 (1 * 40 div int (length ?bs)))"
    and "estimated_duration_hours (?cs ! 0) = duration (?bs ! 0) \<or>
      4 \<le> estimated_duration_hours (?cs ! 0)"
    by blast+
  then have "(20 :: int) = max 4 (1 * 40 div 2)" and "(4 :: int) \<le> 20"
    by simp_all
  with run show ?thesis by blast
qed

end
